theory Spec2Isabelle
  imports Main "HOL-Library.Sublist"
begin

section \<open>The passkey flows of the web SDK: the class \<open>Passkeys\<close>\<close>

text \<open>
  The class \<open>Passkeys\<close> sequences calls to the backend (generated REST operations), to
  the browser credential API (\<open>WebAuthnHelper\<close>), to the session, device and trust
  stores and to user callbacks. Every \<open>await\<close> either yields a value or throws, so a
  flow is a function from the persistent client-side storage to an outcome (the thrown
  value or the result), the storage afterwards and the list of external calls made, in
  order, each with what it answered.
\<close>

subsection \<open>Values\<close>

text \<open>
  JavaScript can throw any value; \<open>invokePasskeyApi\<close> tells \<open>Error\<close> instances from
  the rest with \<open>instanceof\<close>.
\<close>

datatype thrown = ErrorInstance string | OtherValue string

fun instanceofError :: "thrown \<Rightarrow> bool" where
  "instanceofError (ErrorInstance m) = True"
| "instanceofError (OtherValue v) = False"

text \<open>Truthiness of an optional string and of an optional flag, and \<open>a || b\<close>.\<close>

fun truthy_str :: "string option \<Rightarrow> bool" where
  "truthy_str None = False"
| "truthy_str (Some s) = (s \<noteq> [])"

fun truthy_bool :: "bool option \<Rightarrow> bool" where
  "truthy_bool None = False"
| "truthy_bool (Some b) = b"

definition js_or :: "string option \<Rightarrow> string option \<Rightarrow> string option" where
  "js_or a b = (if truthy_str a then a else b)"

record authResult =
  token :: string
  userId :: string
  isAuthenticated :: bool
  isFallback :: bool

text \<open>The type \<open>JWT\<close> of the completion responses.\<close>

record jwt =
  jwtAccess :: string
  jwt_userId :: string
  jwt_deviceId :: "string option"

text \<open>
  Modelled from the spec: \<open>toAuthResult\<close> (imported from \<open>../lib/defaults\<close>, not in the
  sources at hand) maps a completion response to the result envelope "token, user id,
  success flag, fallback flag"; called with the response alone it reports a successful,
  non-fallback authentication.
\<close>

definition toAuthResult :: "jwt \<Rightarrow> bool option \<Rightarrow> bool option \<Rightarrow> authResult" where
  "toAuthResult authResponse isAuth isFb =
     \<lparr>token = jwtAccess authResponse,
      userId = jwt_userId authResponse,
      isAuthenticated = (case isAuth of None \<Rightarrow> True | Some b \<Rightarrow> b),
      isFallback = (case isFb of None \<Rightarrow> False | Some b \<Rightarrow> b)\<rparr>"

text \<open>
  User callbacks are asynchronous functions: awaited, each resolves (\<open>None\<close>) or rejects
  with a value.
\<close>

record callbacks =
  onSuccess :: "(authResult \<Rightarrow> thrown option) option"
  onFallback :: "(string \<Rightarrow> string list \<Rightarrow> thrown option) option"

text \<open>
  The option objects of the four public methods, with the fields this class reads or
  writes; all are optional in the source.
\<close>

record options =
  authzToken :: "string option"
  usernameType :: "string option"
  displayName :: "string option"
  crossPlatform :: "bool option"
  passkeyName :: "string option"
  autoFill :: "bool option"
  callbacks :: "callbacks option"
  nonce :: "string option"
  txType :: "string option"

type_synonym deviceInfo = string

record regInitRequestBody =
  reg_app_id :: string
  reg_deviceInfo :: deviceInfo
  reg_username :: string
  reg_usernameType :: "string option"
  reg_displayName :: "string option"
  reg_securityKey :: "bool option"
  reg_trustItems :: "string option"

text \<open>The registration init response: the session and the creation options (opaque here).\<close>

record regInit =
  reg_session :: string
  registrationRequestOptions :: string

text \<open>
  What \<open>createNavigatorCredential\<close> returns: the credential (opaque here) and the
  optional passkey name, the one field this class sets.
\<close>

record regCompleteRequestBody =
  creationResult :: string
  regc_passkeyName :: "string option"

record authInitRequestBody =
  auth_app_id :: string
  auth_deviceInfo :: deviceInfo
  auth_username :: string
  auth_usernameType :: "string option"
  auth_trustItems :: "string option"

text \<open>
  The type \<open>AuthInit\<close>. The action is a string at run time, whatever the declared
  union type says.
\<close>

record authInit =
  action :: string
  crossAuthMethods :: "string list"
  fallbackMethods :: "string list"
  assertionOptions :: string
  session :: string

record assertionResult =
  authenticatorData :: string
  clientDataJSON :: string
  credentialId :: string
  signature :: string

text \<open>What \<open>getNavigatorCredential\<close> returns: the assertion and the rest (opaque here).\<close>

record authCompleteRequestBody =
  assertionResult :: assertionResult
  authc_rest :: string

record otp =
  code :: string
  expiresAt :: string

record txInitRequestBody =
  txi_username :: string
  txi_txPayload :: string
  txi_nonce :: "string option"
  txi_txType :: "string option"

record txInit =
  tx_assertionOptions :: string
  tx_session :: string

record txCompleteRequestBody =
  txc_authenticatorData :: string
  txc_clientData :: string
  txc_keyHandle :: string
  txc_session :: string
  txc_signature :: string

type_synonym txComplete = string

text \<open>The payload of a parsed token, of which only the username is read.\<close>

record jwtPayload =
  jwt_username :: "string option"

subsection \<open>Storage, external calls, flows\<close>

text \<open>Cookies and local storage: string keys, string values.\<close>

type_synonym storage = "string \<rightharpoonup> string"

datatype event =
    GetDeviceId string "string option"
  | DefaultDeviceInfo "string option" "thrown + deviceInfo"
  | GetToken options string
  | ParseJwt string "thrown + jwtPayload"
  | SetOrSignWithTrustId string string "thrown + string option"
  | RegRegInit regInitRequestBody "string option" "thrown + regInit"
  | CreateNavigatorCredential regInit "thrown + regCompleteRequestBody"
  | RegRegComplete regCompleteRequestBody "thrown + jwt"
  | SetJwtCookie string
  | PersistDeviceId string "string option"
  | AuthAuthInit authInitRequestBody "thrown + authInit"
  | GetNavigatorCredential authInit "options option" "thrown + authCompleteRequestBody"
  | AuthAuthComplete authCompleteRequestBody "thrown + jwt"
  | OnSuccess authResult "thrown option"
  | OnFallback string "string list" "thrown option"
  | AuthAuthCodeRequest string "thrown + otp"
  | TxTxInit txInitRequestBody "thrown + txInit"
  | TxTxComplete txCompleteRequestBody "thrown + txComplete"
  | ReportError string thrown

text \<open>
  Everything this class imports and calls, as parameters: what each external call answers
  (\<open>Inl\<close> a thrown value or a rejected promise), the pure helpers of the package
  (\<open>passkeyOptions\<close>, \<open>confirmTransactionOptions\<close>, \<open>mergeFallbackOptions\<close>), the
  configured application id and the constant \<open>NO_LOGIN_OPTIONS_ERROR\<close>. The session
  and the device store read and write the storage; the trust store, whose code is not
  at hand, is taken to leave cookies and local storage alone, as the spec has nothing
  persist there beyond the token and the device id. The synchronous helpers and store
  accesses are taken to return; \<open>parseJwt\<close>, which decodes its argument, may throw.
\<close>

record env =
  getAppId :: string
  NO_LOGIN_OPTIONS_ERROR :: thrown
  passkeyOptions :: "string \<Rightarrow> string \<Rightarrow> options \<Rightarrow> options"
  confirmTransactionOptions :: "string \<Rightarrow> options \<Rightarrow> options"
  mergeFallbackOptions :: "authInit \<Rightarrow> string list"
  getDeviceId_read :: "storage \<Rightarrow> string \<Rightarrow> string option"
  persistDeviceId_write :: "string \<Rightarrow> string option \<Rightarrow> storage \<Rightarrow> storage"
  getToken_read :: "storage \<Rightarrow> options \<Rightarrow> string"
  setJwtCookie_write :: "string \<Rightarrow> storage \<Rightarrow> storage"
  defaultDeviceInfo_answer :: "string option \<Rightarrow> thrown + deviceInfo"
  parseJwt_answer :: "string \<Rightarrow> thrown + jwtPayload"
  setOrSignWithTrustId_answer :: "string \<Rightarrow> string \<Rightarrow> thrown + string option"
  regRegInit_answer :: "regInitRequestBody \<Rightarrow> string option \<Rightarrow> thrown + regInit"
  createNavigatorCredential_answer :: "regInit \<Rightarrow> thrown + regCompleteRequestBody"
  regRegComplete_answer :: "regCompleteRequestBody \<Rightarrow> thrown + jwt"
  authAuthInit_answer :: "authInitRequestBody \<Rightarrow> thrown + authInit"
  getNavigatorCredential_answer ::
    "authInit \<Rightarrow> options option \<Rightarrow> thrown + authCompleteRequestBody"
  authAuthComplete_answer :: "authCompleteRequestBody \<Rightarrow> thrown + jwt"
  authAuthCodeRequest_answer :: "string \<Rightarrow> thrown + otp"
  txTxInit_answer :: "txInitRequestBody \<Rightarrow> thrown + txInit"
  txTxComplete_answer :: "txCompleteRequestBody \<Rightarrow> thrown + txComplete"

type_synonym 'a flow = "storage \<Rightarrow> (thrown + 'a) \<times> storage \<times> event list"

definition ret :: "'a \<Rightarrow> 'a flow" where
  "ret x = (\<lambda>st. (Inr x, st, []))"

definition throw :: "thrown \<Rightarrow> 'a flow" where
  "throw e = (\<lambda>st. (Inl e, st, []))"

text \<open>An awaited external call: it is recorded and its answer is the outcome.\<close>

definition call :: "event \<Rightarrow> thrown + 'a \<Rightarrow> 'a flow" where
  "call ev answer = (\<lambda>st. (answer, st, [ev]))"

text \<open>Sequencing: a thrown value ends the flow, as an uncaught exception does.\<close>

definition andThen :: "'a flow \<Rightarrow> ('a \<Rightarrow> 'b flow) \<Rightarrow> 'b flow" where
  "andThen m f = (\<lambda>st.
     case m st of
       (Inl e, st1, evs1) \<Rightarrow> (Inl e, st1, evs1)
     | (Inr x, st1, evs1) \<Rightarrow>
         (case f x st1 of (r, st2, evs2) \<Rightarrow> (r, st2, evs1 @ evs2)))"

subsection \<open>The external calls\<close>

text \<open>
  \<open>DeviceStore.getDeviceId(appId)\<close> and \<open>session.getToken(options)\<close> read the storage.
  The device id may be missing; the token is a string, empty when the session has none
  (the code only tests it for truthiness).
\<close>

definition getDeviceId :: "env \<Rightarrow> string \<Rightarrow> (string option) flow" where
  "getDeviceId env appId = (\<lambda>st.
     let d = getDeviceId_read env st appId in (Inr d, st, [GetDeviceId appId d]))"

text \<open>
  Modelled from the spec: \<open>DeviceStore.persistDeviceId\<close> (not in the sources at hand)
  writes the device id of the application to the storage ("persist a token/device id as a
  side effect"); how it lays the value out is left to the parameter.
\<close>

definition persistDeviceId :: "env \<Rightarrow> string \<Rightarrow> string option \<Rightarrow> unit flow" where
  "persistDeviceId env appId deviceId = (\<lambda>st.
     (Inr (), persistDeviceId_write env appId deviceId st, [PersistDeviceId appId deviceId]))"

definition getToken :: "env \<Rightarrow> options \<Rightarrow> string flow" where
  "getToken env opts = (\<lambda>st.
     let t = getToken_read env st opts in (Inr t, st, [GetToken opts t]))"

text \<open>
  Modelled from the spec: \<open>session.setJwtCookie\<close> (not in the sources at hand) writes
  the token to the storage; how it lays the value out is left to the parameter.
\<close>

definition setJwtCookie :: "env \<Rightarrow> string \<Rightarrow> unit flow" where
  "setJwtCookie env jwtAccessToken = (\<lambda>st.
     (Inr (), setJwtCookie_write env jwtAccessToken st, [SetJwtCookie jwtAccessToken]))"

definition defaultDeviceInfo :: "env \<Rightarrow> string option \<Rightarrow> deviceInfo flow" where
  "defaultDeviceInfo env deviceId =
     (let a = defaultDeviceInfo_answer env deviceId in call (DefaultDeviceInfo deviceId a) a)"

definition parseJwt :: "env \<Rightarrow> string \<Rightarrow> jwtPayload flow" where
  "parseJwt env t = (let a = parseJwt_answer env t in call (ParseJwt t a) a)"

text \<open>
  Modelled from the spec: \<open>TrustStore.setOrSignWithTrustId\<close> (not in the sources at
  hand) yields the trust information and leaves cookies and local storage as they are
  ("nothing persists beyond a token/device-id pair written to local storage/cookie").
\<close>

definition setOrSignWithTrustId :: "env \<Rightarrow> string \<Rightarrow> string \<Rightarrow> (string option) flow" where
  "setOrSignWithTrustId env appId username =
     (let a = setOrSignWithTrustId_answer env appId username
      in call (SetOrSignWithTrustId appId username a) a)"

definition regRegInit :: "env \<Rightarrow> regInitRequestBody \<Rightarrow> string option \<Rightarrow> regInit flow" where
  "regRegInit env requestBody authorization =
     (let a = regRegInit_answer env requestBody authorization
      in call (RegRegInit requestBody authorization a) a)"

definition createNavigatorCredential :: "env \<Rightarrow> regInit \<Rightarrow> regCompleteRequestBody flow" where
  "createNavigatorCredential env regInitResponseBody =
     (let a = createNavigatorCredential_answer env regInitResponseBody
      in call (CreateNavigatorCredential regInitResponseBody a) a)"

definition regRegComplete :: "env \<Rightarrow> regCompleteRequestBody \<Rightarrow> jwt flow" where
  "regRegComplete env requestBody =
     (let a = regRegComplete_answer env requestBody in call (RegRegComplete requestBody a) a)"

definition authAuthInit :: "env \<Rightarrow> authInitRequestBody \<Rightarrow> authInit flow" where
  "authAuthInit env requestBody =
     (let a = authAuthInit_answer env requestBody in call (AuthAuthInit requestBody a) a)"

definition getNavigatorCredential ::
  "env \<Rightarrow> authInit \<Rightarrow> options option \<Rightarrow> authCompleteRequestBody flow" where
  "getNavigatorCredential env authInitResponseBody opts =
     (let a = getNavigatorCredential_answer env authInitResponseBody opts
      in call (GetNavigatorCredential authInitResponseBody opts a) a)"

definition authAuthComplete :: "env \<Rightarrow> authCompleteRequestBody \<Rightarrow> jwt flow" where
  "authAuthComplete env requestBody =
     (let a = authAuthComplete_answer env requestBody
      in call (AuthAuthComplete requestBody a) a)"

definition authAuthCodeRequest :: "env \<Rightarrow> string \<Rightarrow> otp flow" where
  "authAuthCodeRequest env authorization =
     (let a = authAuthCodeRequest_answer env authorization
      in call (AuthAuthCodeRequest authorization a) a)"

definition txTxInit :: "env \<Rightarrow> txInitRequestBody \<Rightarrow> txInit flow" where
  "txTxInit env requestBody =
     (let a = txTxInit_answer env requestBody in call (TxTxInit requestBody a) a)"

definition txTxComplete :: "env \<Rightarrow> txCompleteRequestBody \<Rightarrow> txComplete flow" where
  "txTxComplete env requestBody =
     (let a = txTxComplete_answer env requestBody in call (TxTxComplete requestBody a) a)"

text \<open>Optional chaining: \<open>opts?.callbacks?.onSuccess\<close> and \<open>opts?.callbacks?.onFallback\<close>.\<close>

definition optionalOnSuccess :: "options \<Rightarrow> (authResult \<Rightarrow> thrown option) option" where
  "optionalOnSuccess opts = (case callbacks opts of None \<Rightarrow> None | Some cbs \<Rightarrow> onSuccess cbs)"

definition optionalOnFallback ::
  "options \<Rightarrow> (string \<Rightarrow> string list \<Rightarrow> thrown option) option" where
  "optionalOnFallback opts = (case callbacks opts of None \<Rightarrow> None | Some cbs \<Rightarrow> onFallback cbs)"

text \<open>An awaited callback: resolved, or rejected with a value.\<close>

definition settled :: "thrown option \<Rightarrow> thrown + unit" where
  "settled p = (case p of None \<Rightarrow> Inr () | Some e \<Rightarrow> Inl e)"

text \<open>\<open>if (opts?.callbacks?.onSuccess) { await opts.callbacks.onSuccess(result); }\<close>\<close>

definition awaitOnSuccess :: "options \<Rightarrow> authResult \<Rightarrow> unit flow" where
  "awaitOnSuccess opts result =
     (case optionalOnSuccess opts of
        None \<Rightarrow> ret ()
      | Some f \<Rightarrow> call (OnSuccess result (f result)) (settled (f result)))"

text \<open>
  \<open>if (opts?.callbacks?.onFallback) { const fallbackOptions =
  mergeFallbackOptions(authInitResponseBody); await opts.callbacks.onFallback(username,
  fallbackOptions); }\<close>
\<close>

definition awaitOnFallback :: "env \<Rightarrow> options \<Rightarrow> string \<Rightarrow> authInit \<Rightarrow> unit flow" where
  "awaitOnFallback env opts username authInitResponseBody =
     (case optionalOnFallback opts of
        None \<Rightarrow> ret ()
      | Some f \<Rightarrow>
          (let fallbackOptions = mergeFallbackOptions env authInitResponseBody
           in call (OnFallback username fallbackOptions (f username fallbackOptions))
                (settled (f username fallbackOptions))))"

subsection \<open>The methods of the class\<close>

text \<open>
  \<open>invokePasskeyApi\<close>: \<open>try { return await fn(); } catch (error) { if (error instanceof
  Error) { service.reportError(session, error); } throw error; }\<close>. The report is an
  asynchronous call that is started and not awaited: it is recorded, and what becomes of
  it is never observed.
\<close>

definition invokePasskeyApi :: "env \<Rightarrow> string \<Rightarrow> 'a flow \<Rightarrow> 'a flow" where
  "invokePasskeyApi env sess fn = (\<lambda>st.
     case fn st of
       (Inr v, st1, evs) \<Rightarrow> (Inr v, st1, evs)
     | (Inl error, st1, evs) \<Rightarrow>
         (if instanceofError error
          then (Inl error, st1, evs @ [ReportError sess error])
          else (Inl error, st1, evs)))"

text \<open>The object literal \<open>regInitRequestBody\<close> of \<open>createPasskey\<close>.\<close>

definition regInitRequest ::
  "string \<Rightarrow> deviceInfo \<Rightarrow> string \<Rightarrow> options \<Rightarrow> options \<Rightarrow> string option
     \<Rightarrow> regInitRequestBody" where
  "regInitRequest appId deviceInfo username opts options trustInfo =
     \<lparr>reg_app_id = appId,
      reg_deviceInfo = deviceInfo,
      reg_username = username,
      reg_usernameType = usernameType opts,
      reg_displayName = displayName opts,
      reg_securityKey = (if truthy_bool (crossPlatform options) then Some True else None),
      reg_trustItems = (if truthy_str trustInfo then trustInfo else None)\<rparr>"

text \<open>The function \<open>createPasskey\<close> hands to \<open>invokePasskeyApi\<close>.\<close>

definition createPasskey_fn ::
  "env \<Rightarrow> string \<Rightarrow> string option \<Rightarrow> options \<Rightarrow> regInit \<Rightarrow> authResult flow" where
  "createPasskey_fn env appId deviceId options regInitResponseBody =
     andThen (createNavigatorCredential env regInitResponseBody) (\<lambda>created.
     let regCompleteRequestBody =
           (if truthy_str (passkeyName options)
            then created\<lparr>regc_passkeyName := passkeyName options\<rparr>
            else created) in
     andThen (regRegComplete env regCompleteRequestBody) (\<lambda>regCompleteResponse.
     let result = toAuthResult regCompleteResponse None None in
     andThen (setJwtCookie env (jwtAccess regCompleteResponse)) (\<lambda>_.
     andThen
       (persistDeviceId env appId (js_or deviceId (jwt_deviceId regCompleteResponse)))
       (\<lambda>_.
     ret result))))"

text \<open>
  The guard of \<open>createPasskey\<close> against a token of another user: \<open>if (opts.authzToken) {
  const parsedToken = parseJwt(opts.authzToken); if (parsedToken.username !== username) {
  opts.authzToken = ""; } }\<close>. It yields the token to use.
\<close>

definition guardUsername :: "env \<Rightarrow> string \<Rightarrow> string \<Rightarrow> string flow" where
  "guardUsername env username sessionToken =
     (if sessionToken \<noteq> []
      then andThen (parseJwt env sessionToken) (\<lambda>parsedToken.
             ret (if jwt_username parsedToken \<noteq> Some username then [] else sessionToken))
      else ret sessionToken)"

text \<open>\<open>createPasskey(username, authzToken = "", options = {})\<close>\<close>

definition createPasskey :: "env \<Rightarrow> string \<Rightarrow> string \<Rightarrow> options \<Rightarrow> authResult flow" where
  "createPasskey env username authzTokenArg options =
     (let appId = getAppId env in
      andThen (getDeviceId env appId) (\<lambda>deviceId.
      andThen (defaultDeviceInfo env deviceId) (\<lambda>deviceInfo.
      let opts = passkeyOptions env username authzTokenArg options in
      andThen (getToken env opts) (\<lambda>sessionToken.
      andThen (guardUsername env username sessionToken) (\<lambda>guardedToken.
      let opts = opts\<lparr>authzToken := Some guardedToken\<rparr> in
      andThen (setOrSignWithTrustId env appId username) (\<lambda>trustInfo.
      let regInitRequestBody =
            regInitRequest appId deviceInfo username opts options trustInfo in
      andThen
        (regRegInit env regInitRequestBody
           (if truthy_str (authzToken opts) then authzToken opts else None))
        (\<lambda>regInitResponseBody.
      invokePasskeyApi env (reg_session regInitResponseBody)
        (createPasskey_fn env appId deviceId options regInitResponseBody))))))))"

text \<open>The object literal \<open>authInitRequestBody\<close> of \<open>authenticateWithPasskey\<close>.\<close>

definition authInitRequest ::
  "string \<Rightarrow> deviceInfo \<Rightarrow> string \<Rightarrow> options \<Rightarrow> string option \<Rightarrow> authInitRequestBody" where
  "authInitRequest appId deviceInfo username opts trustInfo =
     \<lparr>auth_app_id = appId,
      auth_deviceInfo = deviceInfo,
      auth_username = username,
      auth_usernameType = usernameType opts,
      auth_trustItems = (if truthy_str trustInfo then trustInfo else None)\<rparr>"

text \<open>The function \<open>authenticateWithPasskey\<close> hands to \<open>invokePasskeyApi\<close>.\<close>

definition authenticateWithPasskey_fn ::
  "env \<Rightarrow> string \<Rightarrow> options \<Rightarrow> options \<Rightarrow> authInit \<Rightarrow> authResult flow" where
  "authenticateWithPasskey_fn env appId options opts authInitResponseBody =
     andThen (getNavigatorCredential env authInitResponseBody (Some options))
       (\<lambda>authCompleteRequestBody.
     andThen (authAuthComplete env authCompleteRequestBody) (\<lambda>authCompleteResponse.
     let result = toAuthResult authCompleteResponse None None in
     andThen (setJwtCookie env (token result)) (\<lambda>_.
     andThen (persistDeviceId env appId (jwt_deviceId authCompleteResponse)) (\<lambda>_.
     andThen (awaitOnSuccess opts result) (\<lambda>_.
     ret result)))))"

text \<open>\<open>const emptyResponse: JWT = { userId: "", jwtAccess: "" }\<close>\<close>

definition emptyResponse :: jwt where
  "emptyResponse = \<lparr>jwtAccess = [], jwt_userId = [], jwt_deviceId = None\<rparr>"

text \<open>\<open>authenticateWithPasskey(username = "", options = {})\<close>\<close>

definition authenticateWithPasskey :: "env \<Rightarrow> string \<Rightarrow> options \<Rightarrow> authResult flow" where
  "authenticateWithPasskey env username options =
     (let appId = getAppId env in
      andThen (getDeviceId env appId) (\<lambda>deviceId.
      andThen (defaultDeviceInfo env deviceId) (\<lambda>deviceInfo.
      let opts = passkeyOptions env username [] options in
      andThen
        (setOrSignWithTrustId env appId
           (if truthy_bool (autoFill options) then [] else username))
        (\<lambda>trustInfo.
      let authInitRequestBody = authInitRequest appId deviceInfo username opts trustInfo in
      andThen (authAuthInit env authInitRequestBody) (\<lambda>authInitResponseBody.
      if action authInitResponseBody = ''proceed'' then
        invokePasskeyApi env (session authInitResponseBody)
          (authenticateWithPasskey_fn env appId options opts authInitResponseBody)
      else if action authInitResponseBody = ''crossAuth''
              \<or> action authInitResponseBody = ''fallback'' then
        andThen (awaitOnFallback env opts username authInitResponseBody) (\<lambda>_.
        ret (toAuthResult emptyResponse (Some False) (Some True)))
      else throw (NO_LOGIN_OPTIONS_ERROR env))))))"

text \<open>\<open>authenticateWithPasskeyAutofill(options = {})\<close>\<close>

definition authenticateWithPasskeyAutofill :: "env \<Rightarrow> options \<Rightarrow> authResult flow" where
  "authenticateWithPasskeyAutofill env options =
     (let options = options\<lparr>autoFill := Some True\<rparr> in
      authenticateWithPasskey env [] options)"

text \<open>\<open>requestOtp(username, options = {})\<close>\<close>

definition requestOtp :: "env \<Rightarrow> string \<Rightarrow> options \<Rightarrow> otp flow" where
  "requestOtp env username options =
     andThen (getToken env options) (\<lambda>sessionToken.
     let options = options\<lparr>authzToken := Some sessionToken\<rparr> in
     andThen
       (if \<not> truthy_str (authzToken options)
        then andThen (authenticateWithPasskey env username options) (\<lambda>result.
               ret (token result))
        else ret sessionToken) (\<lambda>authorization.
     andThen (authAuthCodeRequest env authorization) (\<lambda>result.
     ret result)))"

text \<open>
  The function \<open>confirmTransaction\<close> hands to \<open>invokePasskeyApi\<close>; \<open>sess\<close> is the
  \<open>session\<close> taken from the init response.
\<close>

definition confirmTransaction_fn :: "env \<Rightarrow> string \<Rightarrow> authInit \<Rightarrow> txComplete flow" where
  "confirmTransaction_fn env sess authInitResponseBody =
     andThen (getNavigatorCredential env authInitResponseBody None) (\<lambda>credential.
     let txCompleteRequestBody =
           \<lparr>txc_authenticatorData = authenticatorData (assertionResult credential),
            txc_clientData = clientDataJSON (assertionResult credential),
            txc_keyHandle = credentialId (assertionResult credential),
            txc_session = sess,
            txc_signature = signature (assertionResult credential)\<rparr> in
     andThen (txTxComplete env txCompleteRequestBody) (\<lambda>result.
     ret result))"

text \<open>\<open>confirmTransaction(username, txPayload, options = {})\<close>\<close>

definition confirmTransaction :: "env \<Rightarrow> string \<Rightarrow> string \<Rightarrow> options \<Rightarrow> txComplete flow" where
  "confirmTransaction env username txPayload options =
     (let opts = confirmTransactionOptions env username options;
          txInitRequestBody =
            \<lparr>txi_username = username,
             txi_txPayload = txPayload,
             txi_nonce = nonce opts,
             txi_txType = txType opts\<rparr> in
      andThen (txTxInit env txInitRequestBody) (\<lambda>txInitResponse.
      let authInitResponseBody =
            \<lparr>action = ''proceed'',
             crossAuthMethods = [],
             fallbackMethods = [],
             assertionOptions = tx_assertionOptions txInitResponse,
             session = tx_session txInitResponse\<rparr> in
      invokePasskeyApi env (session authInitResponseBody)
        (confirmTransaction_fn env (tx_session txInitResponse) authInitResponseBody)))"

subsection \<open>Notions used to state the properties\<close>

text \<open>Which external call an event records.\<close>

datatype kind =
    KGetDeviceId | KDefaultDeviceInfo | KGetToken | KParseJwt | KSetOrSignWithTrustId
  | KRegRegInit | KCreateNavigatorCredential | KRegRegComplete | KSetJwtCookie
  | KPersistDeviceId | KAuthAuthInit | KGetNavigatorCredential | KAuthAuthComplete
  | KOnSuccess | KOnFallback | KAuthAuthCodeRequest | KTxTxInit | KTxTxComplete
  | KReportError

fun kindOf :: "event \<Rightarrow> kind" where
  "kindOf (GetDeviceId a d) = KGetDeviceId"
| "kindOf (DefaultDeviceInfo d a) = KDefaultDeviceInfo"
| "kindOf (GetToken opts t) = KGetToken"
| "kindOf (ParseJwt t a) = KParseJwt"
| "kindOf (SetOrSignWithTrustId a u t) = KSetOrSignWithTrustId"
| "kindOf (RegRegInit b z a) = KRegRegInit"
| "kindOf (CreateNavigatorCredential i a) = KCreateNavigatorCredential"
| "kindOf (RegRegComplete b a) = KRegRegComplete"
| "kindOf (SetJwtCookie t) = KSetJwtCookie"
| "kindOf (PersistDeviceId a d) = KPersistDeviceId"
| "kindOf (AuthAuthInit b a) = KAuthAuthInit"
| "kindOf (GetNavigatorCredential i opts a) = KGetNavigatorCredential"
| "kindOf (AuthAuthComplete b a) = KAuthAuthComplete"
| "kindOf (OnSuccess res p) = KOnSuccess"
| "kindOf (OnFallback u fb p) = KOnFallback"
| "kindOf (AuthAuthCodeRequest z a) = KAuthAuthCodeRequest"
| "kindOf (TxTxInit b a) = KTxTxInit"
| "kindOf (TxTxComplete b a) = KTxTxComplete"
| "kindOf (ReportError s e) = KReportError"

definition kinds :: "event list \<Rightarrow> kind list" where
  "kinds evs = map kindOf evs"

text \<open>The report \<open>invokePasskeyApi\<close> makes of a thrown value: none unless it is an \<open>Error\<close>.\<close>

definition reportOf :: "string \<Rightarrow> thrown \<Rightarrow> event list" where
  "reportOf sess e = (if instanceofError e then [ReportError sess e] else [])"

text \<open>What awaiting the optional callbacks records, and how they settle.\<close>

definition onSuccessEvents :: "options \<Rightarrow> authResult \<Rightarrow> event list" where
  "onSuccessEvents opts result =
     (case optionalOnSuccess opts of None \<Rightarrow> [] | Some cb \<Rightarrow> [OnSuccess result (cb result)])"

definition onSuccessOutcome :: "options \<Rightarrow> authResult \<Rightarrow> thrown option" where
  "onSuccessOutcome opts result =
     (case optionalOnSuccess opts of None \<Rightarrow> None | Some cb \<Rightarrow> cb result)"

definition onFallbackEvents :: "env \<Rightarrow> options \<Rightarrow> string \<Rightarrow> authInit \<Rightarrow> event list" where
  "onFallbackEvents env opts username resp =
     (case optionalOnFallback opts of
        None \<Rightarrow> []
      | Some cb \<Rightarrow>
          [OnFallback username (mergeFallbackOptions env resp)
             (cb username (mergeFallbackOptions env resp))])"

definition onFallbackOutcome :: "env \<Rightarrow> options \<Rightarrow> string \<Rightarrow> authInit \<Rightarrow> thrown option" where
  "onFallbackOutcome env opts username resp =
     (case optionalOnFallback opts of
        None \<Rightarrow> None
      | Some cb \<Rightarrow> cb username (mergeFallbackOptions env resp))"

text \<open>The order of the steps of the \<open>proceed\<close> branch of \<open>authenticateWithPasskey\<close>.\<close>

definition proceedOrder :: "kind list" where
  "proceedOrder =
     [KGetDeviceId, KDefaultDeviceInfo, KSetOrSignWithTrustId, KAuthAuthInit,
      KGetNavigatorCredential, KAuthAuthComplete, KSetJwtCookie, KPersistDeviceId, KOnSuccess]"

text \<open>
  The calls of a run follow that order: they are the first steps of it, as far as the run
  got, followed by nothing or, when a step threw, by the one error report.
\<close>

definition inProceedOrder :: "kind list \<Rightarrow> bool" where
  "inProceedOrder ks =
     (prefix ks proceedOrder \<or>
      (ks \<noteq> [] \<and> last ks = KReportError \<and> prefix (butlast ks) proceedOrder))"

text \<open>
  The condition of the username guard in the words of its comment: the session yields a
  token, and the username parsed from it is the one to register.
\<close>

definition tokenMatches :: "env \<Rightarrow> string \<Rightarrow> string \<Rightarrow> bool" where
  "tokenMatches env username sessionToken =
     (sessionToken \<noteq> [] \<and>
      (case parseJwt_answer env sessionToken of
         Inl e \<Rightarrow> False
       | Inr parsedToken \<Rightarrow> jwt_username parsedToken = Some username))"

text \<open>
  What the username guard of \<open>createPasskey\<close> records, what it throws when the
  token does not parse, and the token it leaves in \<open>opts.authzToken\<close> otherwise.
\<close>

definition guardEvents :: "env \<Rightarrow> string \<Rightarrow> event list" where
  "guardEvents env sessionToken =
     (if sessionToken \<noteq> [] then [ParseJwt sessionToken (parseJwt_answer env sessionToken)]
      else [])"

definition guardFailure :: "env \<Rightarrow> string \<Rightarrow> thrown option" where
  "guardFailure env sessionToken =
     (if sessionToken = [] then None
      else case parseJwt_answer env sessionToken of Inl e \<Rightarrow> Some e | Inr p \<Rightarrow> None)"

definition guardedToken :: "env \<Rightarrow> string \<Rightarrow> string \<Rightarrow> string" where
  "guardedToken env username sessionToken =
     (if tokenMatches env username sessionToken then sessionToken else [])"

text \<open>The request body \<open>confirmTransaction\<close> completes a transaction with.\<close>

definition txCompleteRequest :: "string \<Rightarrow> authCompleteRequestBody \<Rightarrow> txCompleteRequestBody" where
  "txCompleteRequest sess credential =
     \<lparr>txc_authenticatorData = authenticatorData (assertionResult credential),
      txc_clientData = clientDataJSON (assertionResult credential),
      txc_keyHandle = credentialId (assertionResult credential),
      txc_session = sess,
      txc_signature = signature (assertionResult credential)\<rparr>"

text \<open>
  Modelled from the spec: of all the external calls, the ones that write cookies or local
  storage are \<open>session.setJwtCookie\<close> and \<open>DeviceStore.persistDeviceId\<close> ("nothing
  persists beyond a token/device-id pair written to local storage/cookie"); the code of
  the stores is not in the sources at hand.
\<close>

fun applyWrite :: "env \<Rightarrow> storage \<Rightarrow> event \<Rightarrow> storage" where
  "applyWrite env st (SetJwtCookie t) = setJwtCookie_write env t st"
| "applyWrite env st (PersistDeviceId appId d) = persistDeviceId_write env appId d st"
| "applyWrite env st ev = st"

definition isWrite :: "event \<Rightarrow> bool" where
  "isWrite ev = (kindOf ev = KSetJwtCookie \<or> kindOf ev = KPersistDeviceId)"

text \<open>
  A run writes at most a token and then a device id: the storage it leaves is the one it
  found with the recorded writes applied, and those are no write, or the token alone (the
  flow failed before the device id), or the token and then the device id.
\<close>

definition tokenDeviceWrites :: "env \<Rightarrow> storage \<Rightarrow> storage \<Rightarrow> event list \<Rightarrow> bool" where
  "tokenDeviceWrites env st st' evs =
     (st' = foldl (applyWrite env) st evs \<and>
      prefix (map kindOf (filter isWrite evs)) [KSetJwtCookie, KPersistDeviceId])"

text \<open>The outcome of a flow, the storage it leaves and the calls it makes.\<close>

definition outcomeOf :: "'a flow \<Rightarrow> storage \<Rightarrow> thrown + 'a" where
  "outcomeOf m st = fst (m st)"

definition storageAfter :: "'a flow \<Rightarrow> storage \<Rightarrow> storage" where
  "storageAfter m st = fst (snd (m st))"

definition eventsOf :: "'a flow \<Rightarrow> storage \<Rightarrow> event list" where
  "eventsOf m st = snd (snd (m st))"

definition writesOf :: "'a flow \<Rightarrow> storage \<Rightarrow> event list" where
  "writesOf m st = filter isWrite (eventsOf m st)"

definition writesTokenAndDeviceAtMost :: "env \<Rightarrow> 'a flow \<Rightarrow> storage \<Rightarrow> bool" where
  "writesTokenAndDeviceAtMost env m st =
     tokenDeviceWrites env st (storageAfter m st) (eventsOf m st)"

subsection \<open>A sample environment\<close>

text \<open>
  A toy backend and browser on which the theorems below are exercised: the backend names
  the action after the username it is asked about and opens a transaction session named
  after the payload, a token parses to the username it spells, and the browser refuses
  the session \<open>refused\<close>.
\<close>

definition emptyOptions :: options where
  "emptyOptions =
     \<lparr>authzToken = None, usernameType = None, displayName = None, crossPlatform = None,
      passkeyName = None, autoFill = None, callbacks = None, nonce = None, txType = None\<rparr>"

definition sampleRejecting :: options where
  "sampleRejecting =
     emptyOptions\<lparr>callbacks :=
       Some \<lparr>onSuccess = None,
             onFallback = Some (\<lambda>username fallbackOptions. Some (ErrorInstance ''declined''))\<rparr>\<rparr>"

definition sampleAssertion :: authCompleteRequestBody where
  "sampleAssertion =
     \<lparr>assertionResult =
        \<lparr>authenticatorData = ''ad'', clientDataJSON = ''cd'', credentialId = ''id'',
         signature = ''sig''\<rparr>,
      authc_rest = []\<rparr>"

definition sampleAuthInit :: "string \<Rightarrow> authInit" where
  "sampleAuthInit a =
     \<lparr>action = a, crossAuthMethods = [''otp''], fallbackMethods = [], assertionOptions = [],
      session = ''auth-session''\<rparr>"

definition sampleJwt :: "string \<Rightarrow> jwt" where
  "sampleJwt t = \<lparr>jwtAccess = t, jwt_userId = ''u1'', jwt_deviceId = Some ''d1''\<rparr>"

definition sampleEnv :: env where
  "sampleEnv =
     \<lparr>getAppId = ''app'',
      NO_LOGIN_OPTIONS_ERROR = ErrorInstance ''no login options'',
      passkeyOptions = (\<lambda>username authz options. options),
      confirmTransactionOptions = (\<lambda>username options. options),
      mergeFallbackOptions = (\<lambda>a. crossAuthMethods a @ fallbackMethods a),
      getDeviceId_read = (\<lambda>st appId. st ''device''),
      persistDeviceId_write =
        (\<lambda>appId d st. case d of None \<Rightarrow> st | Some v \<Rightarrow> st(''device'' \<mapsto> v)),
      getToken_read = (\<lambda>st opts. case st ''jwt'' of None \<Rightarrow> [] | Some t \<Rightarrow> t),
      setJwtCookie_write = (\<lambda>t st. st(''jwt'' \<mapsto> t)),
      defaultDeviceInfo_answer = (\<lambda>d. Inr ''browser''),
      parseJwt_answer = (\<lambda>t. Inr \<lparr>jwt_username = Some t\<rparr>),
      setOrSignWithTrustId_answer = (\<lambda>appId username. Inr None),
      regRegInit_answer =
        (\<lambda>b a. Inr \<lparr>reg_session = ''reg-session'', registrationRequestOptions = []\<rparr>),
      createNavigatorCredential_answer =
        (\<lambda>i. Inr \<lparr>creationResult = ''cred'', regc_passkeyName = None\<rparr>),
      regRegComplete_answer =
        (\<lambda>b. Inr (sampleJwt ''alice'')),
      authAuthInit_answer =
        (\<lambda>b. Inr (sampleAuthInit (auth_username b))),
      getNavigatorCredential_answer =
        (\<lambda>i opts. if session i = ''refused'' then Inl (ErrorInstance ''NotAllowedError'')
                   else Inr sampleAssertion),
      authAuthComplete_answer =
        (\<lambda>b. Inr (sampleJwt ''bob'')),
      authAuthCodeRequest_answer = (\<lambda>z. Inr \<lparr>code = ''123456'', expiresAt = ''soon''\<rparr>),
      txTxInit_answer =
        (\<lambda>b. Inr \<lparr>tx_assertionOptions = [], tx_session = txi_txPayload b\<rparr>),
      txTxComplete_answer = (\<lambda>b. Inr ''confirmed'')\<rparr>"

definition sampleCallbacks :: options where
  "sampleCallbacks =
     emptyOptions\<lparr>callbacks :=
       Some \<lparr>onSuccess = None, onFallback = Some (\<lambda>username fallbackOptions. None)\<rparr>\<rparr>"

section \<open>The runs of the flows\<close>

subsection \<open>Running a flow\<close>

lemma ret_run: "ret x st = (Inr x, st, [])"
  by (simp add: ret_def)

lemma throw_run: "throw e st = (Inl e, st, [])"
  by (simp add: throw_def)

lemma call_run: "call ev a st = (a, st, [ev])"
  by (simp add: call_def)

lemma andThen_run:
  "andThen m f st =
     (case m st of
        (Inl e, st1, evs1) \<Rightarrow> (Inl e, st1, evs1)
      | (Inr x, st1, evs1) \<Rightarrow>
          (case f x st1 of (r, st2, evs2) \<Rightarrow> (r, st2, evs1 @ evs2)))"
  by (simp add: andThen_def)

lemma andThen_ret: "andThen (ret x) f st = f x st"
  by (simp add: andThen_def ret_def split: prod.splits)

lemma andThen_assoc: "andThen (andThen m f) g = andThen m (\<lambda>x. andThen (f x) g)"
  by (rule ext) (simp add: andThen_def split: prod.splits sum.splits)

lemma andThen_call:
  "andThen (call ev a) f st =
     (case a of
        Inl e \<Rightarrow> (Inl e, st, [ev])
      | Inr x \<Rightarrow> (case f x st of (r, st2, evs2) \<Rightarrow> (r, st2, ev # evs2)))"
  by (simp add: andThen_def call_def split: sum.splits prod.splits)

lemma andThen_getDeviceId:
  "andThen (getDeviceId env appId) f st =
     (case f (getDeviceId_read env st appId) st of
        (r, st2, evs2) \<Rightarrow> (r, st2, GetDeviceId appId (getDeviceId_read env st appId) # evs2))"
  by (simp add: andThen_def getDeviceId_def Let_def split: prod.splits)

lemma andThen_getToken:
  "andThen (getToken env opts) f st =
     (case f (getToken_read env st opts) st of
        (r, st2, evs2) \<Rightarrow> (r, st2, GetToken opts (getToken_read env st opts) # evs2))"
  by (simp add: andThen_def getToken_def Let_def split: prod.splits)

lemma andThen_setJwtCookie:
  "andThen (setJwtCookie env t) f st =
     (case f () (setJwtCookie_write env t st) of
        (r, st2, evs2) \<Rightarrow> (r, st2, SetJwtCookie t # evs2))"
  by (simp add: andThen_def setJwtCookie_def split: prod.splits)

lemma andThen_persistDeviceId:
  "andThen (persistDeviceId env appId d) f st =
     (case f () (persistDeviceId_write env appId d st) of
        (r, st2, evs2) \<Rightarrow> (r, st2, PersistDeviceId appId d # evs2))"
  by (simp add: andThen_def persistDeviceId_def split: prod.splits)

lemmas call_defs = defaultDeviceInfo_def parseJwt_def setOrSignWithTrustId_def
  regRegInit_def createNavigatorCredential_def regRegComplete_def authAuthInit_def
  getNavigatorCredential_def authAuthComplete_def authAuthCodeRequest_def txTxInit_def
  txTxComplete_def

lemmas run_simps = andThen_ret andThen_call andThen_getDeviceId andThen_getToken
  andThen_setJwtCookie andThen_persistDeviceId call_defs Let_def

lemma andThen_awaitOnSuccess:
  "andThen (awaitOnSuccess opts result) f st =
     (case onSuccessOutcome opts result of
        None \<Rightarrow> (case f () st of (r, st2, evs2) \<Rightarrow> (r, st2, onSuccessEvents opts result @ evs2))
      | Some e \<Rightarrow> (Inl e, st, onSuccessEvents opts result))"
  by (simp add: awaitOnSuccess_def settled_def onSuccessOutcome_def onSuccessEvents_def
      run_simps split: option.splits prod.splits)

lemma andThen_awaitOnFallback:
  "andThen (awaitOnFallback env opts username resp) f st =
     (case onFallbackOutcome env opts username resp of
        None \<Rightarrow> (case f () st of (r, st2, evs2) \<Rightarrow>
                   (r, st2, onFallbackEvents env opts username resp @ evs2))
      | Some e \<Rightarrow> (Inl e, st, onFallbackEvents env opts username resp))"
  by (simp add: awaitOnFallback_def settled_def onFallbackOutcome_def onFallbackEvents_def
      run_simps split: option.splits prod.splits)

lemma andThen_guardUsername:
  "andThen (guardUsername env username tok) f st =
     (case guardFailure env tok of
        Some e \<Rightarrow> (Inl e, st, guardEvents env tok)
      | None \<Rightarrow> (case f (guardedToken env username tok) st of
                  (r, st2, evs2) \<Rightarrow> (r, st2, guardEvents env tok @ evs2)))"
  by (simp add: guardUsername_def guardEvents_def guardedToken_def tokenMatches_def
      guardFailure_def andThen_assoc run_simps split: sum.splits prod.splits)

lemma invokePasskeyApi_run:
  "invokePasskeyApi env sess fn st =
     (case fn st of
        (Inr v, st1, evs) \<Rightarrow> (Inr v, st1, evs)
      | (Inl e, st1, evs) \<Rightarrow> (Inl e, st1, evs @ reportOf sess e))"
  by (simp add: invokePasskeyApi_def reportOf_def split: prod.splits sum.splits)

subsection \<open>The runs of \<open>authenticateWithPasskey\<close>\<close>

lemma authenticateWithPasskey_fn_cases
  [consumes 1, case_names credentialFails completeFails callbackFails returns]:
  assumes run:
    "invokePasskeyApi env sess (authenticateWithPasskey_fn env appId options opts resp) st
       = (r, st', evs)"
  obtains
    (credentialFails) e where
      "getNavigatorCredential_answer env resp (Some options) = Inl e"
      "r = Inl e" "st' = st"
      "evs = GetNavigatorCredential resp (Some options) (Inl e) # reportOf sess e"
  | (completeFails) creq e where
      "getNavigatorCredential_answer env resp (Some options) = Inr creq"
      "authAuthComplete_answer env creq = Inl e"
      "r = Inl e" "st' = st"
      "evs = [GetNavigatorCredential resp (Some options) (Inr creq),
              AuthAuthComplete creq (Inl e)] @ reportOf sess e"
  | (callbackFails) creq cresp e where
      "getNavigatorCredential_answer env resp (Some options) = Inr creq"
      "authAuthComplete_answer env creq = Inr cresp"
      "r = Inl e" "onSuccessOutcome opts (toAuthResult cresp None None) = Some e"
      "st' = persistDeviceId_write env appId (jwt_deviceId cresp)
               (setJwtCookie_write env (token (toAuthResult cresp None None)) st)"
      "evs = [GetNavigatorCredential resp (Some options) (Inr creq),
              AuthAuthComplete creq (Inr cresp),
              SetJwtCookie (token (toAuthResult cresp None None)),
              PersistDeviceId appId (jwt_deviceId cresp)]
             @ onSuccessEvents opts (toAuthResult cresp None None) @ reportOf sess e"
  | (returns) creq cresp where
      "getNavigatorCredential_answer env resp (Some options) = Inr creq"
      "authAuthComplete_answer env creq = Inr cresp"
      "r = Inr (toAuthResult cresp None None)"
      "onSuccessOutcome opts (toAuthResult cresp None None) = None"
      "st' = persistDeviceId_write env appId (jwt_deviceId cresp)
               (setJwtCookie_write env (token (toAuthResult cresp None None)) st)"
      "evs = [GetNavigatorCredential resp (Some options) (Inr creq),
              AuthAuthComplete creq (Inr cresp),
              SetJwtCookie (token (toAuthResult cresp None None)),
              PersistDeviceId appId (jwt_deviceId cresp)]
             @ onSuccessEvents opts (toAuthResult cresp None None)"
proof (cases "getNavigatorCredential_answer env resp (Some options)")
  case (Inl e)
  with run show ?thesis
    by (intro credentialFails [of e])
       (auto simp: invokePasskeyApi_run authenticateWithPasskey_fn_def run_simps)
next
  case c: (Inr creq)
  show ?thesis
  proof (cases "authAuthComplete_answer env creq")
    case (Inl e)
    with run c show ?thesis
      by (intro completeFails [of creq e])
         (auto simp: invokePasskeyApi_run authenticateWithPasskey_fn_def run_simps)
  next
    case a: (Inr cresp)
    show ?thesis
    proof (cases "onSuccessOutcome opts (toAuthResult cresp None None)")
      case None
      with run c a show ?thesis
        by (intro returns [of creq cresp])
           (auto simp: invokePasskeyApi_run authenticateWithPasskey_fn_def run_simps
              andThen_awaitOnSuccess ret_def)
    next
      case (Some e)
      with run c a show ?thesis
        by (intro callbackFails [of creq cresp e])
           (auto simp: invokePasskeyApi_run authenticateWithPasskey_fn_def run_simps
              andThen_awaitOnSuccess ret_def)
    qed
  qed
qed

lemma authenticateWithPasskey_cases
  [consumes 1, case_names deviceInfoFails trustFails initFails proceed fallback unknown]:
  fixes env username options st
  defines "appId \<equiv> getAppId env"
      and "d \<equiv> getDeviceId_read env st (getAppId env)"
      and "tu \<equiv> (if truthy_bool (autoFill options) then [] else username)"
      and "opts \<equiv> passkeyOptions env username [] options"
  assumes run: "authenticateWithPasskey env username options st = (r, st', evs)"
  obtains
    (deviceInfoFails) e where
      "r = Inl e" "st' = st"
      "evs = [GetDeviceId appId d, DefaultDeviceInfo d (Inl e)]"
  | (trustFails) di e where
      "r = Inl e" "st' = st"
      "evs = [GetDeviceId appId d, DefaultDeviceInfo d (Inr di),
              SetOrSignWithTrustId appId tu (Inl e)]"
  | (initFails) di ti e where
      "r = Inl e" "st' = st"
      "evs = [GetDeviceId appId d, DefaultDeviceInfo d (Inr di),
              SetOrSignWithTrustId appId tu (Inr ti),
              AuthAuthInit (authInitRequest appId di username opts ti) (Inl e)]"
  | (proceed) di ti resp evs2 where
      "defaultDeviceInfo_answer env d = Inr di"
      "setOrSignWithTrustId_answer env appId tu = Inr ti"
      "authAuthInit_answer env (authInitRequest appId di username opts ti) = Inr resp"
      "action resp = ''proceed''"
      "evs = [GetDeviceId appId d, DefaultDeviceInfo d (Inr di),
              SetOrSignWithTrustId appId tu (Inr ti),
              AuthAuthInit (authInitRequest appId di username opts ti) (Inr resp)] @ evs2"
      "invokePasskeyApi env (session resp)
         (authenticateWithPasskey_fn env appId options opts resp) st = (r, st', evs2)"
  | (fallback) di ti resp where
      "defaultDeviceInfo_answer env d = Inr di"
      "setOrSignWithTrustId_answer env appId tu = Inr ti"
      "authAuthInit_answer env (authInitRequest appId di username opts ti) = Inr resp"
      "action resp = ''crossAuth'' \<or> action resp = ''fallback''"
      "st' = st"
      "r = (case onFallbackOutcome env opts username resp of
              None \<Rightarrow> Inr (toAuthResult emptyResponse (Some False) (Some True))
            | Some e \<Rightarrow> Inl e)"
      "evs = [GetDeviceId appId d, DefaultDeviceInfo d (Inr di),
              SetOrSignWithTrustId appId tu (Inr ti),
              AuthAuthInit (authInitRequest appId di username opts ti) (Inr resp)]
             @ onFallbackEvents env opts username resp"
  | (unknown) di ti resp where
      "defaultDeviceInfo_answer env d = Inr di"
      "setOrSignWithTrustId_answer env appId tu = Inr ti"
      "authAuthInit_answer env (authInitRequest appId di username opts ti) = Inr resp"
      "action resp \<noteq> ''proceed''" "action resp \<noteq> ''crossAuth''" "action resp \<noteq> ''fallback''"
      "r = Inl (NO_LOGIN_OPTIONS_ERROR env)" "st' = st"
      "evs = [GetDeviceId appId d, DefaultDeviceInfo d (Inr di),
              SetOrSignWithTrustId appId tu (Inr ti),
              AuthAuthInit (authInitRequest appId di username opts ti) (Inr resp)]"
proof (cases "defaultDeviceInfo_answer env d")
  case (Inl e)
  with run show ?thesis
    by (intro deviceInfoFails [of e])
       (auto simp: authenticateWithPasskey_def run_simps appId_def d_def)
next
  case a1: (Inr di)
  show ?thesis
  proof (cases "setOrSignWithTrustId_answer env appId tu")
    case (Inl e)
    with run a1 show ?thesis
      by (intro trustFails [of e di])
         (auto simp: authenticateWithPasskey_def run_simps appId_def d_def tu_def)
  next
    case a2: (Inr ti)
    show ?thesis
    proof (cases "authAuthInit_answer env (authInitRequest appId di username opts ti)")
      case (Inl e)
      with run a1 a2 show ?thesis
        by (intro initFails [of e di ti])
           (auto simp: authenticateWithPasskey_def run_simps appId_def d_def tu_def opts_def)
    next
      case a3: (Inr resp)
      consider (p) "action resp = ''proceed''"
        | (f) "action resp \<noteq> ''proceed''"
              "action resp = ''crossAuth'' \<or> action resp = ''fallback''"
        | (u) "action resp \<noteq> ''proceed''" "action resp \<noteq> ''crossAuth''"
              "action resp \<noteq> ''fallback''"
        by blast
      then show ?thesis
      proof cases
        case p
        obtain evs2 where
          e2: "invokePasskeyApi env (session resp)
                 (authenticateWithPasskey_fn env appId options opts resp) st = (r, st', evs2)"
            "evs = [GetDeviceId appId d, DefaultDeviceInfo d (Inr di),
              SetOrSignWithTrustId appId tu (Inr ti),
              AuthAuthInit (authInitRequest appId di username opts ti) (Inr resp)] @ evs2"
          using run a1 a2 a3 p
          by (auto simp: authenticateWithPasskey_def run_simps appId_def d_def tu_def opts_def
                split: prod.splits)
        with p a1 a2 a3 show ?thesis by (intro proceed [of di ti resp evs2]) simp_all
      next
        case f
        from run a1 a2 a3 f have
          "st' = st"
          "r = (case onFallbackOutcome env opts username resp of
                  None \<Rightarrow> Inr (toAuthResult emptyResponse (Some False) (Some True))
                | Some e \<Rightarrow> Inl e)"
          "evs = [GetDeviceId appId d, DefaultDeviceInfo d (Inr di),
              SetOrSignWithTrustId appId tu (Inr ti),
              AuthAuthInit (authInitRequest appId di username opts ti) (Inr resp)]
             @ onFallbackEvents env opts username resp"
          by (auto simp: authenticateWithPasskey_def run_simps appId_def d_def tu_def opts_def
                andThen_awaitOnFallback ret_def split: option.splits)
        with f a1 a2 a3 show ?thesis by (intro fallback [of di ti resp]) simp_all
      next
        case u
        from run a1 a2 a3 u have
          "r = Inl (NO_LOGIN_OPTIONS_ERROR env)" "st' = st"
          "evs = [GetDeviceId appId d, DefaultDeviceInfo d (Inr di),
              SetOrSignWithTrustId appId tu (Inr ti),
              AuthAuthInit (authInitRequest appId di username opts ti) (Inr resp)]"
          by (auto simp: authenticateWithPasskey_def run_simps appId_def d_def tu_def opts_def
                throw_def)
        with u a1 a2 a3 show ?thesis by (intro unknown [of di ti resp]) simp_all
      qed
    qed
  qed
qed

subsection \<open>The runs of \<open>createPasskey\<close>\<close>

lemma createPasskey_fn_cases [consumes 1, case_names credentialFails completeFails returns]:
  assumes run:
    "invokePasskeyApi env sess (createPasskey_fn env appId deviceId options resp) st
       = (r, st', evs)"
  obtains
    (credentialFails) e where
      "r = Inl e" "st' = st"
      "evs = CreateNavigatorCredential resp (Inl e) # reportOf sess e"
  | (completeFails) created body e where
      "body = (if truthy_str (passkeyName options)
               then created\<lparr>regc_passkeyName := passkeyName options\<rparr> else created)"
      "r = Inl e" "st' = st"
      "evs = [CreateNavigatorCredential resp (Inr created), RegRegComplete body (Inl e)]
             @ reportOf sess e"
  | (returns) created body cresp where
      "body = (if truthy_str (passkeyName options)
               then created\<lparr>regc_passkeyName := passkeyName options\<rparr> else created)"
      "r = Inr (toAuthResult cresp None None)"
      "st' = persistDeviceId_write env appId (js_or deviceId (jwt_deviceId cresp))
               (setJwtCookie_write env (jwtAccess cresp) st)"
      "evs = [CreateNavigatorCredential resp (Inr created), RegRegComplete body (Inr cresp),
              SetJwtCookie (jwtAccess cresp),
              PersistDeviceId appId (js_or deviceId (jwt_deviceId cresp))]"
proof (cases "createNavigatorCredential_answer env resp")
  case (Inl e)
  with run show ?thesis
    by (intro credentialFails [of e])
       (auto simp: invokePasskeyApi_run createPasskey_fn_def run_simps)
next
  case c: (Inr created)
  define body where
    "body = (if truthy_str (passkeyName options)
             then created\<lparr>regc_passkeyName := passkeyName options\<rparr> else created)"
  show ?thesis
  proof (cases "regRegComplete_answer env body")
    case (Inl e)
    with run c show ?thesis
      by (intro completeFails [of body created e])
         (auto simp: invokePasskeyApi_run createPasskey_fn_def run_simps body_def)
  next
    case (Inr cresp)
    with run c show ?thesis
      by (intro returns [of body created cresp])
         (auto simp: invokePasskeyApi_run createPasskey_fn_def run_simps body_def ret_def)
  qed
qed

lemma createPasskey_cases
  [consumes 1, case_names deviceInfoFails parseFails trustFails initFails ceremony]:
  fixes env username authz options st
  defines "appId \<equiv> getAppId env"
      and "d \<equiv> getDeviceId_read env st (getAppId env)"
      and "opts \<equiv> passkeyOptions env username authz options"
      and "tok \<equiv> getToken_read env st (passkeyOptions env username authz options)"
  defines "auth \<equiv> (if tokenMatches env username tok then Some tok else None)"
  assumes run: "createPasskey env username authz options st = (r, st', evs)"
  obtains
    (deviceInfoFails) e where
      "r = Inl e" "st' = st"
      "evs = [GetDeviceId appId d, DefaultDeviceInfo d (Inl e)]"
  | (parseFails) di e where
      "r = Inl e" "st' = st"
      "evs = [GetDeviceId appId d, DefaultDeviceInfo d (Inr di), GetToken opts tok,
              ParseJwt tok (Inl e)]"
  | (trustFails) di e where
      "r = Inl e" "st' = st"
      "evs = [GetDeviceId appId d, DefaultDeviceInfo d (Inr di), GetToken opts tok]
             @ guardEvents env tok @ [SetOrSignWithTrustId appId username (Inl e)]"
  | (initFails) di ti body e where
      "r = Inl e" "st' = st"
      "evs = [GetDeviceId appId d, DefaultDeviceInfo d (Inr di), GetToken opts tok]
             @ guardEvents env tok
             @ [SetOrSignWithTrustId appId username (Inr ti), RegRegInit body auth (Inl e)]"
  | (ceremony) di ti body resp evs2 where
      "body = regInitRequest appId di username
                (opts\<lparr>authzToken := Some (guardedToken env username tok)\<rparr>) options ti"
      "evs = [GetDeviceId appId d, DefaultDeviceInfo d (Inr di), GetToken opts tok]
             @ guardEvents env tok
             @ [SetOrSignWithTrustId appId username (Inr ti), RegRegInit body auth (Inr resp)]
             @ evs2"
      "invokePasskeyApi env (reg_session resp)
         (createPasskey_fn env appId d options resp) st = (r, st', evs2)"
proof (cases "defaultDeviceInfo_answer env d")
  case (Inl e)
  with run show ?thesis
    by (intro deviceInfoFails [of e])
       (auto simp: createPasskey_def run_simps appId_def d_def)
next
  case a1: (Inr di)
  show ?thesis
  proof (cases "guardFailure env tok")
    case (Some e)
    then have "tok \<noteq> []" "parseJwt_answer env tok = Inl e"
      by (auto simp: guardFailure_def split: if_splits sum.splits)
    with run a1 Some show ?thesis
      by (intro parseFails [of e di])
         (auto simp: createPasskey_def run_simps andThen_guardUsername guardEvents_def
            appId_def d_def opts_def tok_def)
  next
    case ok: None
    have gt: "truthy_str (Some (guardedToken env username tok)) = tokenMatches env username tok"
      "tokenMatches env username tok \<Longrightarrow> guardedToken env username tok = tok"
      by (auto simp: guardedToken_def tokenMatches_def)
    show ?thesis
    proof (cases "setOrSignWithTrustId_answer env appId username")
      case (Inl e)
      with run a1 ok show ?thesis
        by (intro trustFails [of e di])
           (auto simp: createPasskey_def run_simps andThen_guardUsername
              appId_def d_def opts_def tok_def)
    next
      case a2: (Inr ti)
      define body where
        "body = regInitRequest appId di username
                  (opts\<lparr>authzToken := Some (guardedToken env username tok)\<rparr>) options ti"
      show ?thesis
      proof (cases "regRegInit_answer env body auth")
        case (Inl e)
        with run a1 a2 ok gt show ?thesis
          by (intro initFails [of e di ti body])
             (auto simp: createPasskey_def run_simps andThen_guardUsername
                appId_def d_def opts_def tok_def body_def auth_def)
      next
        case a3: (Inr resp)
        obtain evs2 where
          "invokePasskeyApi env (reg_session resp)
             (createPasskey_fn env appId d options resp) st = (r, st', evs2)"
          "evs = [GetDeviceId appId d, DefaultDeviceInfo d (Inr di), GetToken opts tok]
             @ guardEvents env tok
             @ [SetOrSignWithTrustId appId username (Inr ti), RegRegInit body auth (Inr resp)]
             @ evs2"
          using run a1 a2 a3 ok gt
          by (auto simp: createPasskey_def run_simps andThen_guardUsername
                appId_def d_def opts_def tok_def body_def auth_def split: prod.splits)
        then show ?thesis
          by (intro ceremony [of body di ti resp evs2]) (simp_all add: body_def)
      qed
    qed
  qed
qed

subsection \<open>The runs of \<open>confirmTransaction\<close>\<close>

lemma confirmTransaction_cases
  [consumes 1, case_names initFails credentialFails completeFails returns]:
  fixes env username txPayload options
  defines "body \<equiv>
     \<lparr>txi_username = username, txi_txPayload = txPayload,
      txi_nonce = nonce (confirmTransactionOptions env username options),
      txi_txType = txType (confirmTransactionOptions env username options)\<rparr>"
  assumes run: "confirmTransaction env username txPayload options st = (r, st', evs)"
  obtains
    (initFails) e where
      "r = Inl e" "st' = st" "evs = [TxTxInit body (Inl e)]"
  | (credentialFails) resp ai e where
      "ai = \<lparr>action = ''proceed'', crossAuthMethods = [], fallbackMethods = [],
             assertionOptions = tx_assertionOptions resp, session = tx_session resp\<rparr>"
      "r = Inl e" "st' = st"
      "evs = [TxTxInit body (Inr resp), GetNavigatorCredential ai None (Inl e)]
             @ reportOf (tx_session resp) e"
  | (completeFails) resp ai credential e where
      "ai = \<lparr>action = ''proceed'', crossAuthMethods = [], fallbackMethods = [],
             assertionOptions = tx_assertionOptions resp, session = tx_session resp\<rparr>"
      "r = Inl e" "st' = st"
      "evs = [TxTxInit body (Inr resp), GetNavigatorCredential ai None (Inr credential),
              TxTxComplete (txCompleteRequest (tx_session resp) credential) (Inl e)]
             @ reportOf (tx_session resp) e"
  | (returns) resp ai credential v where
      "ai = \<lparr>action = ''proceed'', crossAuthMethods = [], fallbackMethods = [],
             assertionOptions = tx_assertionOptions resp, session = tx_session resp\<rparr>"
      "r = Inr v" "st' = st"
      "evs = [TxTxInit body (Inr resp), GetNavigatorCredential ai None (Inr credential),
              TxTxComplete (txCompleteRequest (tx_session resp) credential) (Inr v)]"
proof (cases "txTxInit_answer env body")
  case (Inl e)
  with run show ?thesis
    by (intro initFails [of e]) (auto simp: confirmTransaction_def run_simps body_def)
next
  case a1: (Inr resp)
  define ai where
    "ai = \<lparr>action = ''proceed'', crossAuthMethods = [], fallbackMethods = [],
           assertionOptions = tx_assertionOptions resp, session = tx_session resp\<rparr>"
  show ?thesis
  proof (cases "getNavigatorCredential_answer env ai None")
    case (Inl e)
    with run a1 show ?thesis
      by (intro credentialFails [of ai resp e])
         (auto simp: confirmTransaction_def confirmTransaction_fn_def invokePasskeyApi_run
            run_simps body_def ai_def)
  next
    case a2: (Inr credential)
    show ?thesis
    proof (cases "txTxComplete_answer env (txCompleteRequest (tx_session resp) credential)")
      case (Inl e)
      with run a1 a2 show ?thesis
        by (intro completeFails [of ai resp e credential])
           (auto simp: confirmTransaction_def confirmTransaction_fn_def invokePasskeyApi_run
              run_simps body_def ai_def txCompleteRequest_def)
    next
      case (Inr v)
      with run a1 a2 show ?thesis
        by (intro returns [of ai resp v credential])
           (auto simp: confirmTransaction_def confirmTransaction_fn_def invokePasskeyApi_run
              run_simps body_def ai_def txCompleteRequest_def ret_def)
    qed
  qed
qed

subsection \<open>The runs of \<open>requestOtp\<close>\<close>

lemma requestOtp_run:
  assumes run: "requestOtp env username options st = (r, st', evs)"
  shows "(getToken_read env st options \<noteq> [] \<longrightarrow>
            r = authAuthCodeRequest_answer env (getToken_read env st options) \<and>
            st' = st \<and>
            evs = [GetToken options (getToken_read env st options),
                   AuthAuthCodeRequest (getToken_read env st options)
                     (authAuthCodeRequest_answer env (getToken_read env st options))]) \<and>
         (getToken_read env st options = [] \<longrightarrow>
            (case authenticateWithPasskey env username (options\<lparr>authzToken := Some []\<rparr>) st of
               (Inl e, st1, evs1) \<Rightarrow>
                 r = Inl e \<and> st' = st1 \<and> evs = GetToken options [] # evs1
             | (Inr result, st1, evs1) \<Rightarrow>
                 r = authAuthCodeRequest_answer env (token result) \<and>
                 st' = st1 \<and>
                 evs = GetToken options [] # evs1
                       @ [AuthAuthCodeRequest (token result)
                            (authAuthCodeRequest_answer env (token result))]))"
proof (cases "getToken_read env st options = []")
  case False
  with run show ?thesis
    by (cases "authAuthCodeRequest_answer env (getToken_read env st options)")
       (auto simp: requestOtp_def run_simps ret_run)
next
  case True
  obtain ra st1 evs1 where
    a: "authenticateWithPasskey env username (options\<lparr>authzToken := Some []\<rparr>) st
          = (ra, st1, evs1)"
    by (cases "authenticateWithPasskey env username (options\<lparr>authzToken := Some []\<rparr>) st")
  show ?thesis
  proof (cases ra)
    case (Inl e)
    with a have step:
      "andThen (authenticateWithPasskey env username (options\<lparr>authzToken := Some []\<rparr>)) f st
         = (Inl e, st1, evs1)" for f :: "authResult \<Rightarrow> otp flow"
      by (simp add: andThen_def)
    from run True a Inl show ?thesis
      by (auto simp: requestOtp_def run_simps andThen_assoc step)
  next
    case (Inr result)
    with a have step:
      "andThen (authenticateWithPasskey env username (options\<lparr>authzToken := Some []\<rparr>)) f st
         = (case f result st1 of (r, st2, evs2) \<Rightarrow> (r, st2, evs1 @ evs2))"
      for f :: "authResult \<Rightarrow> otp flow"
      by (simp add: andThen_def)
    from run True a Inr show ?thesis
      by (cases "authAuthCodeRequest_answer env (token result)")
         (auto simp: requestOtp_def run_simps andThen_assoc step ret_run)
  qed
qed

subsection \<open>What a run writes\<close>

lemmas frame_simps = tokenDeviceWrites_def isWrite_def reportOf_def onSuccessEvents_def
  onFallbackEvents_def guardEvents_def

lemma authenticateWithPasskey_frame:
  assumes run: "authenticateWithPasskey env username options st = (r, st', evs)"
  shows "tokenDeviceWrites env st st' evs"
  using run
proof (cases rule: authenticateWithPasskey_cases)
  case (proceed di ti resp evs2)
  from proceed(6) show ?thesis
  proof (cases rule: authenticateWithPasskey_fn_cases)
  qed (use proceed(5) in \<open>auto simp: frame_simps split: option.splits\<close>)
qed (auto simp: frame_simps split: option.splits)

lemma createPasskey_frame:
  assumes run: "createPasskey env username authz options st = (r, st', evs)"
  shows "tokenDeviceWrites env st st' evs"
  using run
proof (cases rule: createPasskey_cases)
  case (ceremony di ti body resp evs2)
  from ceremony(3) show ?thesis
  proof (cases rule: createPasskey_fn_cases)
  qed (use ceremony(2) in \<open>auto simp: frame_simps\<close>)
qed (auto simp: frame_simps)

lemma confirmTransaction_frame:
  assumes run: "confirmTransaction env username txPayload options st = (r, st', evs)"
  shows "tokenDeviceWrites env st st' evs"
  using run by (cases rule: confirmTransaction_cases) (auto simp: frame_simps)

lemma requestOtp_frame:
  assumes run: "requestOtp env username options st = (r, st', evs)"
  shows "tokenDeviceWrites env st st' evs"
proof (cases "getToken_read env st options = []")
  case False
  with requestOtp_run [OF run] show ?thesis
    by (simp add: frame_simps)
next
  case True
  obtain ra st1 evs1 where
    a: "authenticateWithPasskey env username (options\<lparr>authzToken := Some []\<rparr>) st
          = (ra, st1, evs1)"
    by (cases "authenticateWithPasskey env username (options\<lparr>authzToken := Some []\<rparr>) st")
  from authenticateWithPasskey_frame [OF a] requestOtp_run [OF run] True a show ?thesis
    by (cases ra) (auto simp: frame_simps)
qed

lemmas sample_simps = sampleEnv_def sampleAuthInit_def sampleJwt_def sampleAssertion_def
  emptyOptions_def sampleCallbacks_def sampleRejecting_def

lemmas notion_simps = kinds_def reportOf_def onSuccessEvents_def onSuccessOutcome_def
  onFallbackEvents_def onFallbackOutcome_def optionalOnSuccess_def optionalOnFallback_def

lemmas eval_simps = authenticateWithPasskey_def authenticateWithPasskey_fn_def
  authenticateWithPasskeyAutofill_def createPasskey_def createPasskey_fn_def
  requestOtp_def confirmTransaction_def confirmTransaction_fn_def
  authInitRequest_def regInitRequest_def txCompleteRequest_def toAuthResult_def
  emptyResponse_def js_or_def guardEvents_def guardedToken_def guardFailure_def
  andThen_guardUsername isWrite_def tokenDeviceWrites_def
  run_simps andThen_awaitOnSuccess andThen_awaitOnFallback invokePasskeyApi_run
  ret_run throw_run call_run sample_simps notion_simps tokenMatches_def proceedOrder_def
  inProceedOrder_def

subsection \<open>Runs on the sample environment\<close>

lemma sample_unknown_run:
  "authenticateWithPasskey sampleEnv ''later'' emptyOptions Map.empty =
     (Inl (ErrorInstance ''no login options''), Map.empty,
      [GetDeviceId ''app'' None, DefaultDeviceInfo None (Inr ''browser''),
       SetOrSignWithTrustId ''app'' ''later'' (Inr None),
       AuthAuthInit (authInitRequest ''app'' ''browser'' ''later'' emptyOptions None)
         (Inr (sampleAuthInit ''later''))])"
  by (simp add: eval_simps)

lemma sample_fallback_run:
  "authenticateWithPasskey sampleEnv ''fallback'' sampleCallbacks Map.empty =
     (Inr \<lparr>token = [], userId = [], isAuthenticated = False, isFallback = True\<rparr>, Map.empty,
      [GetDeviceId ''app'' None, DefaultDeviceInfo None (Inr ''browser''),
       SetOrSignWithTrustId ''app'' ''fallback'' (Inr None),
       AuthAuthInit (authInitRequest ''app'' ''browser'' ''fallback'' sampleCallbacks None)
         (Inr (sampleAuthInit ''fallback'')),
       OnFallback ''fallback'' [''otp''] None])"
  by (simp add: eval_simps)

lemma sample_proceed_run:
  "authenticateWithPasskey sampleEnv ''proceed'' emptyOptions Map.empty =
     (Inr (toAuthResult (sampleJwt ''bob'') None None),
      [''jwt'' \<mapsto> ''bob'', ''device'' \<mapsto> ''d1''],
      [GetDeviceId ''app'' None, DefaultDeviceInfo None (Inr ''browser''),
       SetOrSignWithTrustId ''app'' ''proceed'' (Inr None),
       AuthAuthInit (authInitRequest ''app'' ''browser'' ''proceed'' emptyOptions None)
         (Inr (sampleAuthInit ''proceed'')),
       GetNavigatorCredential (sampleAuthInit ''proceed'') (Some emptyOptions)
         (Inr sampleAssertion),
       AuthAuthComplete sampleAssertion (Inr (sampleJwt ''bob'')),
       SetJwtCookie ''bob'', PersistDeviceId ''app'' (Some ''d1'')])"
  by (simp add: eval_simps)

section \<open>The error wrapper\<close>

text \<open>
  Claim C3. For every session string and every wrapped computation \<open>fn\<close>,
  \<open>invokePasskeyApi\<close> returns the result of \<open>fn\<close> unchanged when \<open>fn\<close> succeeds; when
  \<open>fn\<close> throws an \<open>Error\<close> instance it reports that error with the session to the
  client-events service, and whatever was thrown it rethrows the very same value. The
  storage and the calls made are those of one run of \<open>fn\<close>, followed by at most the one
  report: \<open>fn\<close> is never invoked again, and every call it makes is made as often as in
  that one run.
\<close>

theorem invokePasskeyApi_catch_report_rethrow:
  assumes "fn st = (r, st1, evs)"
  shows "(\<forall>v. r = Inr v \<longrightarrow> invokePasskeyApi env sess fn st = (Inr v, st1, evs)) \<and>
         (\<forall>e. r = Inl e \<and> instanceofError e \<longrightarrow>
              invokePasskeyApi env sess fn st = (Inl e, st1, evs @ [ReportError sess e])) \<and>
         (\<forall>e. r = Inl e \<and> \<not> instanceofError e \<longrightarrow>
              invokePasskeyApi env sess fn st = (Inl e, st1, evs)) \<and>
         (\<forall>ev. kindOf ev \<noteq> KReportError \<longrightarrow>
              count_list (eventsOf (invokePasskeyApi env sess fn) st) ev = count_list evs ev)"
  using assms
  by (cases r) (auto simp: invokePasskeyApi_def eventsOf_def)

theorem invokePasskeyApi_catch_report_rethrow_witness:
  "invokePasskeyApi sampleEnv ''s'' (ret (7::nat)) Map.empty = (Inr 7, Map.empty, []) \<and>
   invokePasskeyApi sampleEnv ''s''
       (call (AuthAuthCodeRequest ''t'' (Inl (ErrorInstance ''boom''))) (Inl (ErrorInstance ''boom'')))
       Map.empty
     = (Inl (ErrorInstance ''boom'') :: thrown + otp, Map.empty,
        [AuthAuthCodeRequest ''t'' (Inl (ErrorInstance ''boom'')),
         ReportError ''s'' (ErrorInstance ''boom'')]) \<and>
   invokePasskeyApi sampleEnv ''s'' (throw (OtherValue ''x'')) Map.empty
     = (Inl (OtherValue ''x'') :: thrown + nat, Map.empty, [])"
  using invokePasskeyApi_catch_report_rethrow
          [of "ret (7::nat)" Map.empty "Inr 7" Map.empty "[]" sampleEnv "''s''"]
        invokePasskeyApi_catch_report_rethrow
          [of "call (AuthAuthCodeRequest ''t'' (Inl (ErrorInstance ''boom''))) (Inl (ErrorInstance ''boom''))"
              Map.empty "Inl (ErrorInstance ''boom'') :: thrown + otp" Map.empty
              "[AuthAuthCodeRequest ''t'' (Inl (ErrorInstance ''boom''))]" sampleEnv "''s''"]
        invokePasskeyApi_catch_report_rethrow
          [of "throw (OtherValue ''x'')" Map.empty "Inl (OtherValue ''x'') :: thrown + nat"
              Map.empty "[]" sampleEnv "''s''"]
  by (simp add: ret_def call_def throw_def)

section \<open>Authentication\<close>

text \<open>
  Claim C1. For every response to \<open>authAuthInit\<close>, \<open>authenticateWithPasskey\<close> dispatches
  on exactly the three action values \<open>proceed\<close>, \<open>crossAuth\<close> and \<open>fallback\<close>. On
  \<open>proceed\<close> the next call is the browser credential API, with that response and the
  original options, and no fallback callback is awaited. On \<open>crossAuth\<close> and on
  \<open>fallback\<close> it takes the fallback path: it calls neither the credential API nor the
  completion request, leaves the storage as it was, makes after the init request no call
  but the optional \<open>onFallback\<close> callback, and its outcome is the fallback result (or
  what that callback rejected with), never the error of the default case. For any other
  action value it throws \<open>NO_LOGIN_OPTIONS_ERROR\<close>, the storage untouched and the init
  request the last call made: no browser credential call and no completion request.
\<close>

theorem authenticateWithPasskey_dispatch:
  assumes run: "authenticateWithPasskey env username options st = (r, st', evs)"
      and init: "AuthAuthInit req (Inr resp) \<in> set evs"
  shows "(action resp = ''proceed'' \<longrightarrow>
            KGetNavigatorCredential \<in> set (kinds evs) \<and>
            take 5 (kinds evs) =
              [KGetDeviceId, KDefaultDeviceInfo, KSetOrSignWithTrustId, KAuthAuthInit,
               KGetNavigatorCredential] \<and>
            evs ! 4 = GetNavigatorCredential resp (Some options)
                        (getNavigatorCredential_answer env resp (Some options)) \<and>
            KOnFallback \<notin> set (kinds evs)) \<and>
         (action resp = ''crossAuth'' \<or> action resp = ''fallback'' \<longrightarrow>
            KGetNavigatorCredential \<notin> set (kinds evs) \<and> KAuthAuthComplete \<notin> set (kinds evs) \<and>
            st' = st \<and>
            kinds (take 4 evs) =
              [KGetDeviceId, KDefaultDeviceInfo, KSetOrSignWithTrustId, KAuthAuthInit] \<and>
            drop 4 evs
              = onFallbackEvents env (passkeyOptions env username [] options) username resp \<and>
            r = (case onFallbackOutcome env (passkeyOptions env username [] options)
                        username resp of
                   None \<Rightarrow> Inr (toAuthResult emptyResponse (Some False) (Some True))
                 | Some e \<Rightarrow> Inl e)) \<and>
         (action resp \<noteq> ''proceed'' \<and> action resp \<noteq> ''crossAuth'' \<and> action resp \<noteq> ''fallback''
            \<longrightarrow> r = Inl (NO_LOGIN_OPTIONS_ERROR env) \<and> st' = st \<and>
                kinds evs = [KGetDeviceId, KDefaultDeviceInfo, KSetOrSignWithTrustId, KAuthAuthInit])"
  using run
proof (cases rule: authenticateWithPasskey_cases)
  case (proceed di ti resp2 evs2)
  from proceed(6) show ?thesis
  proof (cases rule: authenticateWithPasskey_fn_cases)
  qed (use init proceed(4,5) in
        \<open>auto simp: kinds_def reportOf_def onSuccessEvents_def split: option.splits if_splits\<close>)
next
  case (fallback di ti resp2)
  from fallback(7) init have "resp2 = resp"
    by (auto simp: onFallbackEvents_def split: option.splits)
  with fallback(4-7) show ?thesis
    by (auto simp: kinds_def onFallbackEvents_def split: option.splits)
qed (use init in \<open>auto simp: kinds_def\<close>)

lemma sample_crossAuth_run:
  "authenticateWithPasskey sampleEnv ''crossAuth'' emptyOptions Map.empty =
     (Inr (toAuthResult emptyResponse (Some False) (Some True)), Map.empty,
      [GetDeviceId ''app'' None, DefaultDeviceInfo None (Inr ''browser''),
       SetOrSignWithTrustId ''app'' ''crossAuth'' (Inr None),
       AuthAuthInit (authInitRequest ''app'' ''browser'' ''crossAuth'' emptyOptions None)
         (Inr (sampleAuthInit ''crossAuth''))])"
  by (simp add: eval_simps)

theorem authenticateWithPasskey_dispatch_witness:
  "fst (authenticateWithPasskey sampleEnv ''later'' emptyOptions Map.empty)
     = Inl (NO_LOGIN_OPTIONS_ERROR sampleEnv) \<and>
   kinds (snd (snd (authenticateWithPasskey sampleEnv ''later'' emptyOptions Map.empty)))
     = [KGetDeviceId, KDefaultDeviceInfo, KSetOrSignWithTrustId, KAuthAuthInit] \<and>
   KGetNavigatorCredential
     \<in> set (kinds (snd (snd (authenticateWithPasskey sampleEnv ''proceed'' emptyOptions Map.empty)))) \<and>
   snd (snd (authenticateWithPasskey sampleEnv ''proceed'' emptyOptions Map.empty)) ! 4
     = GetNavigatorCredential (sampleAuthInit ''proceed'') (Some emptyOptions)
         (getNavigatorCredential_answer sampleEnv (sampleAuthInit ''proceed'')
            (Some emptyOptions)) \<and>
   KGetNavigatorCredential
     \<notin> set (kinds (snd (snd (authenticateWithPasskey sampleEnv ''fallback'' sampleCallbacks Map.empty)))) \<and>
   fst (authenticateWithPasskey sampleEnv ''fallback'' sampleCallbacks Map.empty)
     = Inr (toAuthResult emptyResponse (Some False) (Some True)) \<and>
   OnFallback ''fallback'' [''otp''] None
     \<in> set (snd (snd (authenticateWithPasskey sampleEnv ''fallback'' sampleCallbacks Map.empty))) \<and>
   fst (authenticateWithPasskey sampleEnv ''crossAuth'' emptyOptions Map.empty)
     = Inr (toAuthResult emptyResponse (Some False) (Some True)) \<and>
   KGetNavigatorCredential
     \<notin> set (kinds (snd (snd (authenticateWithPasskey sampleEnv ''crossAuth'' emptyOptions Map.empty))))"
proof -
  let ?U = "authenticateWithPasskey sampleEnv ''later'' emptyOptions Map.empty"
  let ?P = "authenticateWithPasskey sampleEnv ''proceed'' emptyOptions Map.empty"
  let ?F = "authenticateWithPasskey sampleEnv ''fallback'' sampleCallbacks Map.empty"
  let ?C = "authenticateWithPasskey sampleEnv ''crossAuth'' emptyOptions Map.empty"
  have runs: "?U = (fst ?U, fst (snd ?U), snd (snd ?U))" "?P = (fst ?P, fst (snd ?P), snd (snd ?P))"
    "?F = (fst ?F, fst (snd ?F), snd (snd ?F))" "?C = (fst ?C, fst (snd ?C), snd (snd ?C))"
    by simp_all
  have inits:
    "AuthAuthInit (authInitRequest ''app'' ''browser'' ''later'' emptyOptions None)
       (Inr (sampleAuthInit ''later'')) \<in> set (snd (snd ?U))"
    "AuthAuthInit (authInitRequest ''app'' ''browser'' ''proceed'' emptyOptions None)
       (Inr (sampleAuthInit ''proceed'')) \<in> set (snd (snd ?P))"
    "AuthAuthInit (authInitRequest ''app'' ''browser'' ''fallback'' sampleCallbacks None)
       (Inr (sampleAuthInit ''fallback'')) \<in> set (snd (snd ?F))"
    "AuthAuthInit (authInitRequest ''app'' ''browser'' ''crossAuth'' emptyOptions None)
       (Inr (sampleAuthInit ''crossAuth'')) \<in> set (snd (snd ?C))"
    by (simp_all add: sample_unknown_run sample_proceed_run sample_fallback_run
          sample_crossAuth_run)
  have acts:
    "action (sampleAuthInit ''later'') \<noteq> ''proceed'' \<and>
     action (sampleAuthInit ''later'') \<noteq> ''crossAuth'' \<and>
     action (sampleAuthInit ''later'') \<noteq> ''fallback''"
    "action (sampleAuthInit ''proceed'') = ''proceed''"
    "action (sampleAuthInit ''fallback'') = ''crossAuth'' \<or>
     action (sampleAuthInit ''fallback'') = ''fallback''"
    "action (sampleAuthInit ''crossAuth'') = ''crossAuth'' \<or>
     action (sampleAuthInit ''crossAuth'') = ''fallback''"
    by (simp_all add: sampleAuthInit_def)
  have settled:
    "onFallbackOutcome sampleEnv (passkeyOptions sampleEnv ''fallback'' [] sampleCallbacks)
       ''fallback'' (sampleAuthInit ''fallback'') = None"
    "onFallbackOutcome sampleEnv (passkeyOptions sampleEnv ''crossAuth'' [] emptyOptions)
       ''crossAuth'' (sampleAuthInit ''crossAuth'') = None"
    by (simp_all add: sample_simps notion_simps)
  have called:
    "OnFallback ''fallback'' [''otp''] None \<in> set (snd (snd ?F))"
    by (simp add: sample_fallback_run)
  from authenticateWithPasskey_dispatch [OF runs(1) inits(1)] acts(1)
  have u: "fst ?U = Inl (NO_LOGIN_OPTIONS_ERROR sampleEnv)"
    "kinds (snd (snd ?U)) = [KGetDeviceId, KDefaultDeviceInfo, KSetOrSignWithTrustId, KAuthAuthInit]"
    by blast+
  from authenticateWithPasskey_dispatch [OF runs(2) inits(2)] acts(2)
  have p: "KGetNavigatorCredential \<in> set (kinds (snd (snd ?P)))"
    "snd (snd ?P) ! 4
       = GetNavigatorCredential (sampleAuthInit ''proceed'') (Some emptyOptions)
           (getNavigatorCredential_answer sampleEnv (sampleAuthInit ''proceed'')
              (Some emptyOptions))"
    by blast+
  from authenticateWithPasskey_dispatch [OF runs(3) inits(3)] acts(3)
  have f: "KGetNavigatorCredential \<notin> set (kinds (snd (snd ?F)))"
    "fst ?F = (case onFallbackOutcome sampleEnv
                      (passkeyOptions sampleEnv ''fallback'' [] sampleCallbacks)
                      ''fallback'' (sampleAuthInit ''fallback'') of
                 None \<Rightarrow> Inr (toAuthResult emptyResponse (Some False) (Some True))
               | Some e \<Rightarrow> Inl e)"
    by blast+
  from authenticateWithPasskey_dispatch [OF runs(4) inits(4)] acts(4)
  have c: "KGetNavigatorCredential \<notin> set (kinds (snd (snd ?C)))"
    "fst ?C = (case onFallbackOutcome sampleEnv
                      (passkeyOptions sampleEnv ''crossAuth'' [] emptyOptions)
                      ''crossAuth'' (sampleAuthInit ''crossAuth'') of
                 None \<Rightarrow> Inr (toAuthResult emptyResponse (Some False) (Some True))
               | Some e \<Rightarrow> Inl e)"
    by blast+
  have f2: "fst ?F = Inr (toAuthResult emptyResponse (Some False) (Some True))"
    by (simp only: f(2) settled(1) option.case)
  have c2: "fst ?C = Inr (toAuthResult emptyResponse (Some False) (Some True))"
    by (simp only: c(2) settled(2) option.case)
  from u p f(1) f2 called c2 c(1) show ?thesis
    by (intro conjI)
qed

text \<open>
  Claim C2. For every \<open>authAuthInit\<close> response whose action is \<open>crossAuth\<close> or
  \<open>fallback\<close>, \<open>authenticateWithPasskey\<close> calls neither the browser credential API nor
  \<open>authAuthComplete\<close> and leaves the storage as it was. When no \<open>onFallback\<close> callback
  was provided it returns the result with empty token and user id, success flag false
  and fallback flag true. When one was provided it is awaited last, with the username
  and the merged fallback options, and once it has resolved that same result is
  returned; a callback that rejects has its rejection propagate.
\<close>

theorem authenticateWithPasskey_fallback_result:
  assumes run: "authenticateWithPasskey env username options st = (r, st', evs)"
      and init: "AuthAuthInit req (Inr resp) \<in> set evs"
      and act: "action resp = ''crossAuth'' \<or> action resp = ''fallback''"
  shows "st' = st \<and>
         KGetNavigatorCredential \<notin> set (kinds evs) \<and> KAuthAuthComplete \<notin> set (kinds evs) \<and>
         (case optionalOnFallback (passkeyOptions env username [] options) of
            None \<Rightarrow>
              KOnFallback \<notin> set (kinds evs) \<and>
              r = Inr \<lparr>token = [], userId = [], isAuthenticated = False, isFallback = True\<rparr>
          | Some cb \<Rightarrow>
              last evs = OnFallback username (mergeFallbackOptions env resp)
                           (cb username (mergeFallbackOptions env resp)) \<and>
              (case cb username (mergeFallbackOptions env resp) of
                 None \<Rightarrow>
                   r = Inr \<lparr>token = [], userId = [], isAuthenticated = False, isFallback = True\<rparr>
               | Some e \<Rightarrow> r = Inl e))"
  using run
proof (cases rule: authenticateWithPasskey_cases)
  case (proceed di ti resp2 evs2)
  from proceed(6) show ?thesis
  proof (cases rule: authenticateWithPasskey_fn_cases)
  qed (use init act proceed(4,5) in
        \<open>auto simp: kinds_def reportOf_def onSuccessEvents_def split: option.splits if_splits\<close>)
next
  case (fallback di ti resp2)
  from fallback(7) init have "resp2 = resp"
    by (auto simp: onFallbackEvents_def split: option.splits)
  with fallback(4-7) show ?thesis
    by (auto simp: kinds_def onFallbackEvents_def onFallbackOutcome_def toAuthResult_def
          emptyResponse_def split: option.splits)
qed (use init act in \<open>auto simp: kinds_def\<close>)

theorem authenticateWithPasskey_fallback_result_witness:
  "authenticateWithPasskey sampleEnv ''fallback'' sampleCallbacks Map.empty =
     (Inr \<lparr>token = [], userId = [], isAuthenticated = False, isFallback = True\<rparr>, Map.empty,
      [GetDeviceId ''app'' None, DefaultDeviceInfo None (Inr ''browser''),
       SetOrSignWithTrustId ''app'' ''fallback'' (Inr None),
       AuthAuthInit (authInitRequest ''app'' ''browser'' ''fallback'' sampleCallbacks None)
         (Inr (sampleAuthInit ''fallback'')),
       OnFallback ''fallback'' [''otp''] None]) \<and>
   optionalOnFallback (passkeyOptions sampleEnv ''fallback'' [] sampleCallbacks)
     = Some (\<lambda>username fallbackOptions. None) \<and>
   last [GetDeviceId ''app'' None, DefaultDeviceInfo None (Inr ''browser''),
         SetOrSignWithTrustId ''app'' ''fallback'' (Inr None),
         AuthAuthInit (authInitRequest ''app'' ''browser'' ''fallback'' sampleCallbacks None)
           (Inr (sampleAuthInit ''fallback'')),
         OnFallback ''fallback'' [''otp''] None]
     = OnFallback ''fallback''
         (mergeFallbackOptions sampleEnv (sampleAuthInit ''fallback'')) None"
  using authenticateWithPasskey_fallback_result
          [OF sample_fallback_run,
           of "authInitRequest ''app'' ''browser'' ''fallback'' sampleCallbacks None"
              "sampleAuthInit ''fallback''"]
  by (simp add: sample_fallback_run)
     (simp add: sample_simps optionalOnFallback_def)



text \<open>
  Claim C10. For every options value, \<open>authenticateWithPasskeyAutofill(options)\<close> is
  \<open>authenticateWithPasskey("", options)\<close> with \<open>options.autoFill\<close> set to true; in
  particular, in every run the username sent to \<open>authAuthInit\<close> is the empty string and
  the trust store is queried with the empty username.
\<close>

theorem authenticateWithPasskeyAutofill_equiv:
  assumes run: "authenticateWithPasskeyAutofill env options st = (r, st', evs)"
  shows "authenticateWithPasskeyAutofill env options
           = authenticateWithPasskey env [] (options\<lparr>autoFill := Some True\<rparr>) \<and>
         (\<forall>req a. AuthAuthInit req a \<in> set evs \<longrightarrow> auth_username req = []) \<and>
         (\<forall>appId u a. SetOrSignWithTrustId appId u a \<in> set evs \<longrightarrow> u = [])"
proof -
  have eq: "authenticateWithPasskeyAutofill env options
              = authenticateWithPasskey env [] (options\<lparr>autoFill := Some True\<rparr>)"
    by (simp add: authenticateWithPasskeyAutofill_def)
  from run have "authenticateWithPasskey env [] (options\<lparr>autoFill := Some True\<rparr>) st
                   = (r, st', evs)"
    by (simp add: eq)
  then have "(\<forall>req a. AuthAuthInit req a \<in> set evs \<longrightarrow> auth_username req = []) \<and>
             (\<forall>appId u a. SetOrSignWithTrustId appId u a \<in> set evs \<longrightarrow> u = [])"
  proof (cases rule: authenticateWithPasskey_cases)
    case (proceed di ti resp evs2)
    from proceed(6) show ?thesis
    proof (cases rule: authenticateWithPasskey_fn_cases)
    qed (use proceed(5) in
          \<open>auto simp: authInitRequest_def reportOf_def onSuccessEvents_def
             split: option.splits if_splits\<close>)
  qed (auto simp: authInitRequest_def onFallbackEvents_def split: option.splits)
  with eq show ?thesis by simp
qed

lemma sample_autofill_run:
  "authenticateWithPasskeyAutofill sampleEnv emptyOptions Map.empty =
     (Inl (ErrorInstance ''no login options''), Map.empty,
      [GetDeviceId ''app'' None, DefaultDeviceInfo None (Inr ''browser''),
       SetOrSignWithTrustId ''app'' [] (Inr None),
       AuthAuthInit
         (authInitRequest ''app'' ''browser'' [] (emptyOptions\<lparr>autoFill := Some True\<rparr>) None)
         (Inr (sampleAuthInit []))])"
  by (simp add: eval_simps)

theorem authenticateWithPasskeyAutofill_equiv_witness:
  "authenticateWithPasskeyAutofill sampleEnv emptyOptions
     = authenticateWithPasskey sampleEnv [] (emptyOptions\<lparr>autoFill := Some True\<rparr>) \<and>
   auth_username
     (authInitRequest ''app'' ''browser'' [] (emptyOptions\<lparr>autoFill := Some True\<rparr>) None) = [] \<and>
   SetOrSignWithTrustId ''app'' [] (Inr None)
     \<in> set (snd (snd (authenticateWithPasskeyAutofill sampleEnv emptyOptions Map.empty)))"
proof -
  have "SetOrSignWithTrustId ''app'' [] (Inr None)
          \<in> set (snd (snd (authenticateWithPasskeyAutofill sampleEnv emptyOptions Map.empty)))"
    by (simp add: sample_autofill_run)
  with authenticateWithPasskeyAutofill_equiv [OF sample_autofill_run] show ?thesis
    by simp
qed

section \<open>One-time codes\<close>

text \<open>
  Claim C6. For every call to \<open>requestOtp\<close>: if the session yields a token,
  \<open>authAuthCodeRequest\<close> is called with that token as authorization and nothing else
  happens, so no passkey authentication is performed; if it yields no token,
  \<open>authenticateWithPasskey\<close> is run first (a failure of it ends the call) and the token
  of its result is the authorization of \<open>authAuthCodeRequest\<close>. In both cases what
  \<open>authAuthCodeRequest\<close> answers is the outcome, unchanged.
\<close>

theorem requestOtp_authorization:
  assumes run: "requestOtp env username options st = (r, st', evs)"
  shows "(getToken_read env st options \<noteq> [] \<longrightarrow>
            r = authAuthCodeRequest_answer env (getToken_read env st options) \<and>
            st' = st \<and>
            evs = [GetToken options (getToken_read env st options),
                   AuthAuthCodeRequest (getToken_read env st options)
                     (authAuthCodeRequest_answer env (getToken_read env st options))]) \<and>
         (getToken_read env st options = [] \<longrightarrow>
            (case authenticateWithPasskey env username (options\<lparr>authzToken := Some []\<rparr>) st of
               (Inl e, st1, evs1) \<Rightarrow>
                 r = Inl e \<and> st' = st1 \<and> evs = GetToken options [] # evs1
             | (Inr result, st1, evs1) \<Rightarrow>
                 r = authAuthCodeRequest_answer env (token result) \<and>
                 st' = st1 \<and>
                 evs = GetToken options [] # evs1
                       @ [AuthAuthCodeRequest (token result)
                            (authAuthCodeRequest_answer env (token result))]))"
  using requestOtp_run [OF run] .

lemma sample_otp_token_run:
  "requestOtp sampleEnv ''alice'' emptyOptions [''jwt'' \<mapsto> ''alice''] =
     (Inr \<lparr>code = ''123456'', expiresAt = ''soon''\<rparr>, [''jwt'' \<mapsto> ''alice''],
      [GetToken emptyOptions ''alice'',
       AuthAuthCodeRequest ''alice'' (Inr \<lparr>code = ''123456'', expiresAt = ''soon''\<rparr>)])"
  by (simp add: eval_simps)

lemma sample_proceed_run_no_token:
  "authenticateWithPasskey sampleEnv ''proceed'' (emptyOptions\<lparr>authzToken := Some []\<rparr>)
     Map.empty =
     (Inr (toAuthResult (sampleJwt ''bob'') None None),
      [''jwt'' \<mapsto> ''bob'', ''device'' \<mapsto> ''d1''],
      [GetDeviceId ''app'' None, DefaultDeviceInfo None (Inr ''browser''),
       SetOrSignWithTrustId ''app'' ''proceed'' (Inr None),
       AuthAuthInit
         (authInitRequest ''app'' ''browser'' ''proceed''
            (emptyOptions\<lparr>authzToken := Some []\<rparr>) None)
         (Inr (sampleAuthInit ''proceed'')),
       GetNavigatorCredential (sampleAuthInit ''proceed'')
         (Some (emptyOptions\<lparr>authzToken := Some []\<rparr>)) (Inr sampleAssertion),
       AuthAuthComplete sampleAssertion (Inr (sampleJwt ''bob'')),
       SetJwtCookie ''bob'', PersistDeviceId ''app'' (Some ''d1'')])"
  by (simp add: eval_simps)

theorem requestOtp_authorization_witness:
  "requestOtp sampleEnv ''alice'' emptyOptions [''jwt'' \<mapsto> ''alice''] =
     (Inr \<lparr>code = ''123456'', expiresAt = ''soon''\<rparr>, [''jwt'' \<mapsto> ''alice''],
      [GetToken emptyOptions ''alice'',
       AuthAuthCodeRequest ''alice'' (Inr \<lparr>code = ''123456'', expiresAt = ''soon''\<rparr>)]) \<and>
   getToken_read sampleEnv Map.empty emptyOptions = [] \<and>
   fst (requestOtp sampleEnv ''proceed'' emptyOptions Map.empty)
     = Inr \<lparr>code = ''123456'', expiresAt = ''soon''\<rparr> \<and>
   last (snd (snd (requestOtp sampleEnv ''proceed'' emptyOptions Map.empty)))
     = AuthAuthCodeRequest ''bob'' (Inr \<lparr>code = ''123456'', expiresAt = ''soon''\<rparr>)"
proof -
  have run:
    "requestOtp sampleEnv ''proceed'' emptyOptions Map.empty =
       (fst (requestOtp sampleEnv ''proceed'' emptyOptions Map.empty),
        fst (snd (requestOtp sampleEnv ''proceed'' emptyOptions Map.empty)),
        snd (snd (requestOtp sampleEnv ''proceed'' emptyOptions Map.empty)))"
    by simp
  have tok: "getToken_read sampleEnv Map.empty emptyOptions = []"
    by (simp add: sampleEnv_def)
  have code: "authAuthCodeRequest_answer sampleEnv z = Inr \<lparr>code = ''123456'', expiresAt = ''soon''\<rparr>"
    for z
    by (simp add: sampleEnv_def)
  from requestOtp_authorization [OF run] tok
  have "fst (requestOtp sampleEnv ''proceed'' emptyOptions Map.empty)
          = Inr \<lparr>code = ''123456'', expiresAt = ''soon''\<rparr> \<and>
        last (snd (snd (requestOtp sampleEnv ''proceed'' emptyOptions Map.empty)))
          = AuthAuthCodeRequest ''bob'' (Inr \<lparr>code = ''123456'', expiresAt = ''soon''\<rparr>)"
    by (simp add: sample_proceed_run_no_token code toAuthResult_def sampleJwt_def)
  with requestOtp_authorization [OF sample_otp_token_run] tok show ?thesis
    by (simp add: sample_otp_token_run)
qed

section \<open>Transaction confirmation\<close>

text \<open>
  Claim C9. For every call to \<open>confirmTransaction\<close>, the flow never takes a cross-auth
  or fallback path: the \<open>AuthInit\<close> it hands to the browser credential API has action
  \<open>proceed\<close> and empty \<open>crossAuthMethods\<close> and \<open>fallbackMethods\<close>, and no fallback
  callback is awaited. Unlike the authentication flows it writes neither the token cookie
  nor a device id: the storage is left as it was, and a run that returns yields what
  \<open>txTxComplete\<close> answered.
\<close>

theorem confirmTransaction_proceeds_without_writes:
  assumes run: "confirmTransaction env username txPayload options st = (r, st', evs)"
  shows "st' = st \<and>
         KSetJwtCookie \<notin> set (kinds evs) \<and> KPersistDeviceId \<notin> set (kinds evs) \<and>
         KOnFallback \<notin> set (kinds evs) \<and>
         (\<forall>i opt c. GetNavigatorCredential i opt c \<in> set evs \<longrightarrow>
            action i = ''proceed'' \<and> crossAuthMethods i = [] \<and> fallbackMethods i = []) \<and>
         (\<forall>v. r = Inr v \<longrightarrow> (\<exists>b. last evs = TxTxComplete b (Inr v)))"
  using run
  by (cases rule: confirmTransaction_cases) (auto simp: kinds_def reportOf_def)

lemma sample_transaction_run:
  "confirmTransaction sampleEnv ''alice'' ''pay 5'' emptyOptions [''jwt'' \<mapsto> ''alice''] =
     (Inr ''confirmed'', [''jwt'' \<mapsto> ''alice''],
      [TxTxInit
         \<lparr>txi_username = ''alice'', txi_txPayload = ''pay 5'', txi_nonce = None,
          txi_txType = None\<rparr>
         (Inr \<lparr>tx_assertionOptions = [], tx_session = ''pay 5''\<rparr>),
       GetNavigatorCredential
         \<lparr>action = ''proceed'', crossAuthMethods = [], fallbackMethods = [],
          assertionOptions = [], session = ''pay 5''\<rparr>
         None (Inr sampleAssertion),
       TxTxComplete (txCompleteRequest ''pay 5'' sampleAssertion) (Inr ''confirmed'')])"
  by (simp add: eval_simps)

lemma sample_refused_transaction_run:
  "confirmTransaction sampleEnv ''alice'' ''refused'' emptyOptions [''jwt'' \<mapsto> ''alice''] =
     (Inl (ErrorInstance ''NotAllowedError''), [''jwt'' \<mapsto> ''alice''],
      [TxTxInit
         \<lparr>txi_username = ''alice'', txi_txPayload = ''refused'', txi_nonce = None,
          txi_txType = None\<rparr>
         (Inr \<lparr>tx_assertionOptions = [], tx_session = ''refused''\<rparr>),
       GetNavigatorCredential
         \<lparr>action = ''proceed'', crossAuthMethods = [], fallbackMethods = [],
          assertionOptions = [], session = ''refused''\<rparr>
         None (Inl (ErrorInstance ''NotAllowedError'')),
       ReportError ''refused'' (ErrorInstance ''NotAllowedError'')])"
  by (simp add: eval_simps)

theorem confirmTransaction_proceeds_without_writes_witness:
  "confirmTransaction sampleEnv ''alice'' ''pay 5'' emptyOptions [''jwt'' \<mapsto> ''alice''] =
     (Inr ''confirmed'', [''jwt'' \<mapsto> ''alice''],
      [TxTxInit
         \<lparr>txi_username = ''alice'', txi_txPayload = ''pay 5'', txi_nonce = None,
          txi_txType = None\<rparr>
         (Inr \<lparr>tx_assertionOptions = [], tx_session = ''pay 5''\<rparr>),
       GetNavigatorCredential
         \<lparr>action = ''proceed'', crossAuthMethods = [], fallbackMethods = [],
          assertionOptions = [], session = ''pay 5''\<rparr>
         None (Inr sampleAssertion),
       TxTxComplete (txCompleteRequest ''pay 5'' sampleAssertion) (Inr ''confirmed'')]) \<and>
   KSetJwtCookie \<notin> set [KTxTxInit, KGetNavigatorCredential, KTxTxComplete]"
  using confirmTransaction_proceeds_without_writes [OF sample_transaction_run]
  by (simp add: sample_transaction_run)

section \<open>Registration\<close>



section \<open>Persistent state\<close>

lemma sample_create_run:
  "createPasskey sampleEnv ''alice'' [] emptyOptions [''jwt'' \<mapsto> ''alice''] =
     (Inr (toAuthResult (sampleJwt ''alice'') None None),
      [''jwt'' \<mapsto> ''alice'', ''device'' \<mapsto> ''d1''],
      [GetDeviceId ''app'' None, DefaultDeviceInfo None (Inr ''browser''),
       GetToken emptyOptions ''alice'',
       ParseJwt ''alice'' (Inr \<lparr>jwt_username = Some ''alice''\<rparr>),
       SetOrSignWithTrustId ''app'' ''alice'' (Inr None),
       RegRegInit
         (regInitRequest ''app'' ''browser'' ''alice''
            (emptyOptions\<lparr>authzToken := Some ''alice''\<rparr>) emptyOptions None)
         (Some ''alice'')
         (Inr \<lparr>reg_session = ''reg-session'', registrationRequestOptions = []\<rparr>),
       CreateNavigatorCredential
         \<lparr>reg_session = ''reg-session'', registrationRequestOptions = []\<rparr>
         (Inr \<lparr>creationResult = ''cred'', regc_passkeyName = None\<rparr>),
       RegRegComplete \<lparr>creationResult = ''cred'', regc_passkeyName = None\<rparr>
         (Inr (sampleJwt ''alice'')),
       SetJwtCookie ''alice'', PersistDeviceId ''app'' (Some ''d1'')])"
  by (simp add: eval_simps)

text \<open>
  Claim C4. Every operation of the class leaves the storage it found with at most two
  writes applied, the token cookie and then the device id of the application: no other
  persistent value is written. A successful run of \<open>createPasskey\<close> makes exactly these
  two writes; a successful run of \<open>authenticateWithPasskey\<close> makes exactly these two,
  the cookie being the token of the result, or none at all (the fallback result).
\<close>

theorem only_token_and_device_id_persisted:
  "writesTokenAndDeviceAtMost env (createPasskey env username authz options) st \<and>
   writesTokenAndDeviceAtMost env (authenticateWithPasskey env username options) st \<and>
   writesTokenAndDeviceAtMost env (authenticateWithPasskeyAutofill env options) st \<and>
   writesTokenAndDeviceAtMost env (requestOtp env username options) st \<and>
   writesTokenAndDeviceAtMost env (confirmTransaction env username txPayload options) st \<and>
   (\<forall>res. outcomeOf (createPasskey env username authz options) st = Inr res \<longrightarrow>
      (\<exists>t d. writesOf (createPasskey env username authz options) st
               = [SetJwtCookie t, PersistDeviceId (getAppId env) d])) \<and>
   (\<forall>res. outcomeOf (authenticateWithPasskey env username options) st = Inr res \<longrightarrow>
      writesOf (authenticateWithPasskey env username options) st = [] \<or>
      (\<exists>d. writesOf (authenticateWithPasskey env username options) st
               = [SetJwtCookie (token res), PersistDeviceId (getAppId env) d]))"
proof -
  obtain r1 s1 e1 where c: "createPasskey env username authz options st = (r1, s1, e1)"
    by (cases "createPasskey env username authz options st")
  obtain r2 s2 e2 where a: "authenticateWithPasskey env username options st = (r2, s2, e2)"
    by (cases "authenticateWithPasskey env username options st")
  obtain r3 s3 e3 where
    f: "authenticateWithPasskey env [] (options\<lparr>autoFill := Some True\<rparr>) st = (r3, s3, e3)"
    by (cases "authenticateWithPasskey env [] (options\<lparr>autoFill := Some True\<rparr>) st")
  obtain r4 s4 e4 where o: "requestOtp env username options st = (r4, s4, e4)"
    by (cases "requestOtp env username options st")
  obtain r5 s5 e5 where t: "confirmTransaction env username txPayload options st = (r5, s5, e5)"
    by (cases "confirmTransaction env username txPayload options st")
  have frames:
    "writesTokenAndDeviceAtMost env (createPasskey env username authz options) st"
    "writesTokenAndDeviceAtMost env (authenticateWithPasskey env username options) st"
    "writesTokenAndDeviceAtMost env (authenticateWithPasskeyAutofill env options) st"
    "writesTokenAndDeviceAtMost env (requestOtp env username options) st"
    "writesTokenAndDeviceAtMost env (confirmTransaction env username txPayload options) st"
    using createPasskey_frame [OF c] authenticateWithPasskey_frame [OF a]
      authenticateWithPasskey_frame [OF f] requestOtp_frame [OF o]
      confirmTransaction_frame [OF t] c a f o t
    by (simp_all add: writesTokenAndDeviceAtMost_def storageAfter_def eventsOf_def
          authenticateWithPasskeyAutofill_def)
  have created:
    "\<exists>t d. filter isWrite e1 = [SetJwtCookie t, PersistDeviceId (getAppId env) d]"
    if "r1 = Inr res" for res
    using c
  proof (cases rule: createPasskey_cases)
    case (ceremony di ti body resp evs2)
    from ceremony(3) show ?thesis
    proof (cases rule: createPasskey_fn_cases)
    qed (use that ceremony(2) in \<open>auto simp: isWrite_def guardEvents_def\<close>)
  qed (use that in auto)
  have authenticated:
    "filter isWrite e2 = [] \<or>
     (\<exists>d. filter isWrite e2 = [SetJwtCookie (token res), PersistDeviceId (getAppId env) d])"
    if "r2 = Inr res" for res
    using a
  proof (cases rule: authenticateWithPasskey_cases)
    case (proceed di ti resp evs2)
    from proceed(6) show ?thesis
    proof (cases rule: authenticateWithPasskey_fn_cases)
    qed (use that proceed(5) in
          \<open>auto simp: isWrite_def onSuccessEvents_def split: option.splits\<close>)
  qed (use that in \<open>auto simp: isWrite_def onFallbackEvents_def split: option.splits\<close>)
  from frames created authenticated c a show ?thesis
    by (simp add: outcomeOf_def writesOf_def eventsOf_def)
qed

theorem only_token_and_device_id_persisted_witness:
  "outcomeOf (createPasskey sampleEnv ''alice'' [] emptyOptions) [''jwt'' \<mapsto> ''alice'']
     = Inr (toAuthResult (sampleJwt ''alice'') None None) \<and>
   writesOf (createPasskey sampleEnv ''alice'' [] emptyOptions) [''jwt'' \<mapsto> ''alice'']
     = [SetJwtCookie ''alice'', PersistDeviceId ''app'' (Some ''d1'')] \<and>
   storageAfter (createPasskey sampleEnv ''alice'' [] emptyOptions) [''jwt'' \<mapsto> ''alice'']
     = [''jwt'' \<mapsto> ''alice'', ''device'' \<mapsto> ''d1''] \<and>
   writesTokenAndDeviceAtMost sampleEnv (createPasskey sampleEnv ''alice'' [] emptyOptions)
     [''jwt'' \<mapsto> ''alice'']"
  using only_token_and_device_id_persisted
          [of sampleEnv "''alice''" "[]" emptyOptions "[''jwt'' \<mapsto> ''alice'']"]
  by (simp add: outcomeOf_def writesOf_def eventsOf_def storageAfter_def sample_create_run
        isWrite_def)

section \<open>The session string\<close>

lemma sample_unknown_run_with_token:
  "authenticateWithPasskey sampleEnv ''alice'' emptyOptions [''jwt'' \<mapsto> ''alice''] =
     (Inl (ErrorInstance ''no login options''), [''jwt'' \<mapsto> ''alice''],
      [GetDeviceId ''app'' None, DefaultDeviceInfo None (Inr ''browser''),
       SetOrSignWithTrustId ''app'' ''alice'' (Inr None),
       AuthAuthInit (authInitRequest ''app'' ''browser'' ''alice'' emptyOptions None)
         (Inr (sampleAuthInit ''alice''))])"
  by (simp add: eval_simps)

lemma sample_rejected_fallback_run:
  "authenticateWithPasskey sampleEnv ''fallback'' sampleRejecting Map.empty =
     (Inl (ErrorInstance ''declined''), Map.empty,
      [GetDeviceId ''app'' None, DefaultDeviceInfo None (Inr ''browser''),
       SetOrSignWithTrustId ''app'' ''fallback'' (Inr None),
       AuthAuthInit (authInitRequest ''app'' ''browser'' ''fallback'' sampleRejecting None)
         (Inr (sampleAuthInit ''fallback'')),
       OnFallback ''fallback'' [''otp''] (Some (ErrorInstance ''declined''))])"
  by (simp add: eval_simps)

text \<open>
  Claim C8, as stated, has the session of the init response forwarded to the error
  reporter on failure. It is not so for every failure. In the first run the init response
  is there with its session, the \<open>onFallback\<close> callback then rejects with an
  \<open>Error\<close>, the run fails with it, and no report is made at all. In the second the
  action of the init response is none of the three, the run fails with
  \<open>NO_LOGIN_OPTIONS_ERROR\<close>, and again no report is made.
\<close>

theorem session_report_counterexample:
  "AuthAuthInit (authInitRequest ''app'' ''browser'' ''fallback'' sampleRejecting None)
     (Inr (sampleAuthInit ''fallback''))
     \<in> set (eventsOf (authenticateWithPasskey sampleEnv ''fallback'' sampleRejecting) Map.empty) \<and>
   outcomeOf (authenticateWithPasskey sampleEnv ''fallback'' sampleRejecting) Map.empty
     = Inl (ErrorInstance ''declined'') \<and>
   instanceofError (ErrorInstance ''declined'') \<and>
   KReportError
     \<notin> set (kinds (eventsOf (authenticateWithPasskey sampleEnv ''fallback'' sampleRejecting)
                      Map.empty)) \<and>
   AuthAuthInit (authInitRequest ''app'' ''browser'' ''later'' emptyOptions None)
     (Inr (sampleAuthInit ''later''))
     \<in> set (eventsOf (authenticateWithPasskey sampleEnv ''later'' emptyOptions) Map.empty) \<and>
   outcomeOf (authenticateWithPasskey sampleEnv ''later'' emptyOptions) Map.empty
     = Inl (NO_LOGIN_OPTIONS_ERROR sampleEnv) \<and>
   instanceofError (NO_LOGIN_OPTIONS_ERROR sampleEnv) \<and>
   KReportError
     \<notin> set (kinds (eventsOf (authenticateWithPasskey sampleEnv ''later'' emptyOptions)
                      Map.empty))"
  by (simp add: eventsOf_def outcomeOf_def sample_rejected_fallback_run sample_unknown_run
        kinds_def)
     (simp add: sampleEnv_def)

text \<open>
  Claim C8, amended. In every flow the session string of the init response
  (\<open>regRegInit\<close>, \<open>authAuthInit\<close> or \<open>txTxInit\<close>) is never parsed or modified by the
  client. No token is parsed once the init response is there, and the response goes to
  the browser helper as it came. For transactions the browser is handed an \<open>AuthInit\<close>
  with that session, and as soon as it returns a credential the completion request is
  made, with the fields of the assertion and that same session. Every error report
  carries exactly that session, and a report is made exactly when the function handed to
  \<open>invokePasskeyApi\<close> throws an \<open>Error\<close>: every such failure of \<open>createPasskey\<close> and
  \<open>confirmTransaction\<close> after the init response, and of \<open>authenticateWithPasskey\<close> in
  the \<open>proceed\<close> branch, ends with the report. A failure outside it (an unknown action,
  a rejecting \<open>onFallback\<close> callback) or with a value that is no \<open>Error\<close> is not
  reported.
\<close>

theorem session_forwarded_unchanged:
  "(createPasskey env username authz options st = (rC, sC, eC) \<and>
    RegRegInit bC zC (Inr iC) \<in> set eC \<longrightarrow>
      (\<forall>s e. ReportError s e \<in> set eC \<longrightarrow> s = reg_session iC) \<and>
      (\<forall>i c. CreateNavigatorCredential i c \<in> set eC \<longrightarrow> i = iC) \<and>
      (\<exists>c. CreateNavigatorCredential iC c \<in> set eC) \<and>
      (\<forall>e. rC = Inl e \<and> instanceofError e \<longrightarrow> last eC = ReportError (reg_session iC) e) \<and>
      (KReportError \<in> set (kinds eC) \<longleftrightarrow> (\<exists>e. rC = Inl e \<and> instanceofError e)) \<and>
      KParseJwt \<notin> set (kinds (dropWhile (\<lambda>ev. kindOf ev \<noteq> KRegRegInit) eC))) \<and>
   (authenticateWithPasskey env username options st = (rA, sA, eA) \<and>
    AuthAuthInit bA (Inr iA) \<in> set eA \<longrightarrow>
      (\<forall>s e. ReportError s e \<in> set eA \<longrightarrow> s = session iA) \<and>
      (\<forall>i opt c. GetNavigatorCredential i opt c \<in> set eA \<longrightarrow> i = iA) \<and>
      (\<forall>e. action iA = ''proceed'' \<and> rA = Inl e \<and> instanceofError e \<longrightarrow>
           last eA = ReportError (session iA) e) \<and>
      (KReportError \<in> set (kinds eA) \<longleftrightarrow>
         action iA = ''proceed'' \<and> (\<exists>e. rA = Inl e \<and> instanceofError e)) \<and>
      KParseJwt \<notin> set (kinds eA)) \<and>
   (confirmTransaction env username txPayload options st = (rT, sT, eT) \<and>
    TxTxInit bT (Inr iT) \<in> set eT \<longrightarrow>
      (\<forall>s e. ReportError s e \<in> set eT \<longrightarrow> s = tx_session iT) \<and>
      (\<forall>cb a. TxTxComplete cb a \<in> set eT \<longrightarrow> txc_session cb = tx_session iT) \<and>
      (\<forall>i opt c. GetNavigatorCredential i opt c \<in> set eT \<longrightarrow> session i = tx_session iT) \<and>
      (\<exists>c. GetNavigatorCredential
              \<lparr>action = ''proceed'', crossAuthMethods = [], fallbackMethods = [],
               assertionOptions = tx_assertionOptions iT, session = tx_session iT\<rparr>
              None c \<in> set eT) \<and>
      (\<forall>i opt credential. GetNavigatorCredential i opt (Inr credential) \<in> set eT \<longrightarrow>
         (\<exists>a. TxTxComplete
                 \<lparr>txc_authenticatorData = authenticatorData (assertionResult credential),
                  txc_clientData = clientDataJSON (assertionResult credential),
                  txc_keyHandle = credentialId (assertionResult credential),
                  txc_session = tx_session iT,
                  txc_signature = signature (assertionResult credential)\<rparr>
                 a \<in> set eT)) \<and>
      (\<forall>e. rT = Inl e \<and> instanceofError e \<longrightarrow> last eT = ReportError (tx_session iT) e) \<and>
      (KReportError \<in> set (kinds eT) \<longleftrightarrow> (\<exists>e. rT = Inl e \<and> instanceofError e)) \<and>
      KParseJwt \<notin> set (kinds eT))"
proof (intro conjI impI; elim conjE)
  assume run: "createPasskey env username authz options st = (rC, sC, eC)"
     and init: "RegRegInit bC zC (Inr iC) \<in> set eC"
  from run have
    "(\<forall>s e. ReportError s e \<in> set eC \<longrightarrow> s = reg_session iC) \<and>
     (\<forall>i c. CreateNavigatorCredential i c \<in> set eC \<longrightarrow> i = iC) \<and>
     (\<exists>c. CreateNavigatorCredential iC c \<in> set eC) \<and>
     (\<forall>e. rC = Inl e \<and> instanceofError e \<longrightarrow> last eC = ReportError (reg_session iC) e) \<and>
     (KReportError \<in> set (kinds eC) \<longleftrightarrow> (\<exists>e. rC = Inl e \<and> instanceofError e)) \<and>
     KParseJwt \<notin> set (kinds (dropWhile (\<lambda>ev. kindOf ev \<noteq> KRegRegInit) eC))"
  proof (cases rule: createPasskey_cases)
    case (ceremony di ti body resp evs2)
    from ceremony(3) show ?thesis
    proof (cases rule: createPasskey_fn_cases)
    qed (use init ceremony(2) in
          \<open>auto simp: kinds_def guardEvents_def reportOf_def split: if_splits\<close>)
  qed (use init in \<open>auto simp: guardEvents_def split: if_splits\<close>)
  then show "\<forall>s e. ReportError s e \<in> set eC \<longrightarrow> s = reg_session iC"
    and "\<forall>i c. CreateNavigatorCredential i c \<in> set eC \<longrightarrow> i = iC"
    and "\<exists>c. CreateNavigatorCredential iC c \<in> set eC"
    and "\<forall>e. rC = Inl e \<and> instanceofError e \<longrightarrow> last eC = ReportError (reg_session iC) e"
    and "KReportError \<in> set (kinds eC) \<longleftrightarrow> (\<exists>e. rC = Inl e \<and> instanceofError e)"
    and "KParseJwt \<notin> set (kinds (dropWhile (\<lambda>ev. kindOf ev \<noteq> KRegRegInit) eC))"
    by blast+
next
  assume run: "authenticateWithPasskey env username options st = (rA, sA, eA)"
     and init: "AuthAuthInit bA (Inr iA) \<in> set eA"
  from run have
    "(\<forall>s e. ReportError s e \<in> set eA \<longrightarrow> s = session iA) \<and>
     (\<forall>i opt c. GetNavigatorCredential i opt c \<in> set eA \<longrightarrow> i = iA) \<and>
     (\<forall>e. action iA = ''proceed'' \<and> rA = Inl e \<and> instanceofError e \<longrightarrow>
          last eA = ReportError (session iA) e) \<and>
     (KReportError \<in> set (kinds eA) \<longleftrightarrow>
        action iA = ''proceed'' \<and> (\<exists>e. rA = Inl e \<and> instanceofError e)) \<and>
     KParseJwt \<notin> set (kinds eA)"
  proof (cases rule: authenticateWithPasskey_cases)
    case (proceed di ti resp evs2)
    from proceed(6) show ?thesis
    proof (cases rule: authenticateWithPasskey_fn_cases)
    qed (use init proceed(4,5) in
          \<open>auto simp: kinds_def reportOf_def onSuccessEvents_def split: option.splits if_splits\<close>)
  qed (use init in \<open>auto simp: kinds_def onFallbackEvents_def split: option.splits\<close>)
  then show "\<forall>s e. ReportError s e \<in> set eA \<longrightarrow> s = session iA"
    and "\<forall>i opt c. GetNavigatorCredential i opt c \<in> set eA \<longrightarrow> i = iA"
    and "\<forall>e. action iA = ''proceed'' \<and> rA = Inl e \<and> instanceofError e \<longrightarrow>
           last eA = ReportError (session iA) e"
    and "KReportError \<in> set (kinds eA) \<longleftrightarrow>
           action iA = ''proceed'' \<and> (\<exists>e. rA = Inl e \<and> instanceofError e)"
    and "KParseJwt \<notin> set (kinds eA)"
    by blast+
next
  assume run: "confirmTransaction env username txPayload options st = (rT, sT, eT)"
     and init: "TxTxInit bT (Inr iT) \<in> set eT"
  let ?ai = "\<lparr>action = ''proceed'', crossAuthMethods = [], fallbackMethods = [],
              assertionOptions = tx_assertionOptions iT, session = tx_session iT\<rparr>"
  let ?body = "\<lambda>credential.
     \<lparr>txc_authenticatorData = authenticatorData (assertionResult credential),
      txc_clientData = clientDataJSON (assertionResult credential),
      txc_keyHandle = credentialId (assertionResult credential),
      txc_session = tx_session iT,
      txc_signature = signature (assertionResult credential)\<rparr>"
  from run have
    "(\<forall>s e. ReportError s e \<in> set eT \<longrightarrow> s = tx_session iT) \<and>
     (\<forall>cb a. TxTxComplete cb a \<in> set eT \<longrightarrow> txc_session cb = tx_session iT) \<and>
     (\<forall>i opt c. GetNavigatorCredential i opt c \<in> set eT \<longrightarrow> session i = tx_session iT) \<and>
     (\<exists>c. GetNavigatorCredential ?ai None c \<in> set eT) \<and>
     (\<forall>i opt credential. GetNavigatorCredential i opt (Inr credential) \<in> set eT \<longrightarrow>
        (\<exists>a. TxTxComplete (?body credential) a \<in> set eT)) \<and>
     (\<forall>e. rT = Inl e \<and> instanceofError e \<longrightarrow> last eT = ReportError (tx_session iT) e) \<and>
     (KReportError \<in> set (kinds eT) \<longleftrightarrow> (\<exists>e. rT = Inl e \<and> instanceofError e)) \<and>
     KParseJwt \<notin> set (kinds eT)"
    by (cases rule: confirmTransaction_cases)
       (use init in \<open>auto simp: kinds_def reportOf_def txCompleteRequest_def\<close>)
  then show "\<forall>s e. ReportError s e \<in> set eT \<longrightarrow> s = tx_session iT"
    and "\<forall>cb a. TxTxComplete cb a \<in> set eT \<longrightarrow> txc_session cb = tx_session iT"
    and "\<forall>i opt c. GetNavigatorCredential i opt c \<in> set eT \<longrightarrow> session i = tx_session iT"
    and "\<exists>c. GetNavigatorCredential ?ai None c \<in> set eT"
    and "\<forall>i opt credential. GetNavigatorCredential i opt (Inr credential) \<in> set eT \<longrightarrow>
           (\<exists>a. TxTxComplete (?body credential) a \<in> set eT)"
    and "\<forall>e. rT = Inl e \<and> instanceofError e \<longrightarrow> last eT = ReportError (tx_session iT) e"
    and "KReportError \<in> set (kinds eT) \<longleftrightarrow> (\<exists>e. rT = Inl e \<and> instanceofError e)"
    and "KParseJwt \<notin> set (kinds eT)"
    by blast+
qed

theorem session_forwarded_unchanged_witness:
  "last (eventsOf (confirmTransaction sampleEnv ''alice'' ''refused'' emptyOptions)
           [''jwt'' \<mapsto> ''alice''])
     = ReportError ''refused'' (ErrorInstance ''NotAllowedError'') \<and>
   (\<exists>a. TxTxComplete
           \<lparr>txc_authenticatorData = ''ad'', txc_clientData = ''cd'', txc_keyHandle = ''id'',
            txc_session = ''pay 5'', txc_signature = ''sig''\<rparr>
           a
         \<in> set (eventsOf (confirmTransaction sampleEnv ''alice'' ''pay 5'' emptyOptions)
                  [''jwt'' \<mapsto> ''alice''])) \<and>
   KParseJwt \<in> set (kinds (eventsOf (createPasskey sampleEnv ''alice'' [] emptyOptions)
                             [''jwt'' \<mapsto> ''alice''])) \<and>
   KParseJwt \<notin> set (kinds (dropWhile (\<lambda>ev. kindOf ev \<noteq> KRegRegInit)
                             (eventsOf (createPasskey sampleEnv ''alice'' [] emptyOptions)
                                [''jwt'' \<mapsto> ''alice'']))) \<and>
   KReportError \<notin> set (kinds (eventsOf (createPasskey sampleEnv ''alice'' [] emptyOptions)
                                [''jwt'' \<mapsto> ''alice''])) \<and>
   outcomeOf (authenticateWithPasskey sampleEnv ''alice'' emptyOptions) [''jwt'' \<mapsto> ''alice'']
     = Inl (ErrorInstance ''no login options'') \<and>
   KReportError \<notin> set (kinds (eventsOf (authenticateWithPasskey sampleEnv ''alice'' emptyOptions)
                                [''jwt'' \<mapsto> ''alice'']))"
proof -
  let ?st = "[''jwt'' \<mapsto> ''alice'']"
  let ?C = "createPasskey sampleEnv ''alice'' [] emptyOptions ?st"
  let ?A = "authenticateWithPasskey sampleEnv ''alice'' emptyOptions ?st"
  let ?T = "confirmTransaction sampleEnv ''alice'' ''refused'' emptyOptions ?st"
  let ?P = "confirmTransaction sampleEnv ''alice'' ''pay 5'' emptyOptions ?st"
  let ?bC = "regInitRequest ''app'' ''browser'' ''alice''
               (emptyOptions\<lparr>authzToken := Some ''alice''\<rparr>) emptyOptions None"
  let ?iC = "\<lparr>reg_session = ''reg-session'', registrationRequestOptions = []\<rparr>"
  let ?bA = "authInitRequest ''app'' ''browser'' ''alice'' emptyOptions None"
  let ?bT = "\<lambda>p. \<lparr>txi_username = ''alice'', txi_txPayload = p, txi_nonce = None,
                  txi_txType = None\<rparr>"
  let ?iT = "\<lambda>p. \<lparr>tx_assertionOptions = [], tx_session = p\<rparr>"
  have runs:
    "?C = (fst ?C, fst (snd ?C), snd (snd ?C))" "?A = (fst ?A, fst (snd ?A), snd (snd ?A))"
    "?T = (fst ?T, fst (snd ?T), snd (snd ?T))" "?P = (fst ?P, fst (snd ?P), snd (snd ?P))"
    by simp_all
  have inits:
    "RegRegInit ?bC (Some ''alice'') (Inr ?iC) \<in> set (snd (snd ?C))"
    "AuthAuthInit ?bA (Inr (sampleAuthInit ''alice'')) \<in> set (snd (snd ?A))"
    "TxTxInit (?bT ''refused'') (Inr (?iT ''refused'')) \<in> set (snd (snd ?T))"
    "TxTxInit (?bT ''pay 5'') (Inr (?iT ''pay 5'')) \<in> set (snd (snd ?P))"
    by (simp_all add: sample_create_run sample_unknown_run_with_token
          sample_refused_transaction_run sample_transaction_run)
  have facts:
    "fst ?T = Inl (ErrorInstance ''NotAllowedError'')"
    "instanceofError (ErrorInstance ''NotAllowedError'')"
    "fst ?C = Inr (toAuthResult (sampleJwt ''alice'') None None)"
    "fst ?A = Inl (ErrorInstance ''no login options'')"
    "action (sampleAuthInit ''alice'') \<noteq> ''proceed''"
    "GetNavigatorCredential
       \<lparr>action = ''proceed'', crossAuthMethods = [], fallbackMethods = [],
        assertionOptions = [], session = ''pay 5''\<rparr>
       None (Inr sampleAssertion) \<in> set (snd (snd ?P))"
    "KParseJwt \<in> set (kinds (snd (snd ?C)))"
    by (simp_all add: sample_create_run sample_unknown_run_with_token
          sample_refused_transaction_run sample_transaction_run sampleAuthInit_def kinds_def)
  note refused =
    session_forwarded_unchanged
      [where env = sampleEnv and username = "''alice''" and authz = "[]"
         and options = emptyOptions and st = ?st and txPayload = "''refused''"
         and rC = "fst ?C" and sC = "fst (snd ?C)" and eC = "snd (snd ?C)"
         and bC = ?bC and zC = "Some ''alice''" and iC = ?iC
         and rA = "fst ?A" and sA = "fst (snd ?A)" and eA = "snd (snd ?A)"
         and bA = ?bA and iA = "sampleAuthInit ''alice''"
         and rT = "fst ?T" and sT = "fst (snd ?T)" and eT = "snd (snd ?T)"
         and bT = "?bT ''refused''" and iT = "?iT ''refused''"]
  note paid =
    session_forwarded_unchanged
      [where env = sampleEnv and username = "''alice''" and authz = "[]"
         and options = emptyOptions and st = ?st and txPayload = "''pay 5''"
         and rC = "fst ?C" and sC = "fst (snd ?C)" and eC = "snd (snd ?C)"
         and bC = ?bC and zC = "Some ''alice''" and iC = ?iC
         and rA = "fst ?A" and sA = "fst (snd ?A)" and eA = "snd (snd ?A)"
         and bA = ?bA and iA = "sampleAuthInit ''alice''"
         and rT = "fst ?P" and sT = "fst (snd ?P)" and eT = "snd (snd ?P)"
         and bT = "?bT ''pay 5''" and iT = "?iT ''pay 5''"]
  from refused runs(3) inits(3) facts(1,2)
  have t: "last (snd (snd ?T)) = ReportError (tx_session (?iT ''refused'')) (ErrorInstance ''NotAllowedError'')"
    by blast
  from paid runs(4) inits(4) facts(6)
  have p: "\<exists>a. TxTxComplete
                \<lparr>txc_authenticatorData = authenticatorData (assertionResult sampleAssertion),
                 txc_clientData = clientDataJSON (assertionResult sampleAssertion),
                 txc_keyHandle = credentialId (assertionResult sampleAssertion),
                 txc_session = tx_session (?iT ''pay 5''),
                 txc_signature = signature (assertionResult sampleAssertion)\<rparr>
                a \<in> set (snd (snd ?P))"
    by blast
  from refused runs(1) inits(1) facts(3)
  have c: "KParseJwt \<notin> set (kinds (dropWhile (\<lambda>ev. kindOf ev \<noteq> KRegRegInit) (snd (snd ?C))))"
    "KReportError \<notin> set (kinds (snd (snd ?C)))"
    by auto
  from refused runs(2) inits(2) facts(5)
  have a: "KReportError \<notin> set (kinds (snd (snd ?A)))"
    by blast
  from t have t': "last (snd (snd ?T)) = ReportError ''refused'' (ErrorInstance ''NotAllowedError'')"
    by simp
  from p have p':
    "\<exists>a. TxTxComplete
            \<lparr>txc_authenticatorData = ''ad'', txc_clientData = ''cd'', txc_keyHandle = ''id'',
             txc_session = ''pay 5'', txc_signature = ''sig''\<rparr>
            a \<in> set (snd (snd ?P))"
    by (simp add: sampleAssertion_def)
  from t' p' facts(7) c a facts(4) show ?thesis
    unfolding eventsOf_def outcomeOf_def by blast
qed

end
